theory Spec2Isabelle
  imports
    Main
    "HOL-Library.Word"
    "HOL-Library.Finite_Map"
    "HOL-Library.Char_ord"
    "HOL-Library.List_Lexorder"
begin

section \<open>Data model (models/models.go)\<close>

text \<open>
  Go's \<open>int\<close> is taken at 64 bits: addition and subtraction wrap around, comparisons
  are signed (\<open><s\<close>, \<open>\<le>s\<close>), and \<open>sint\<close> reads the mathematical value.
  A \<open>map[string]T\<close> is a finite map; \<open>time.Time\<close> is an instant, counted in
  nanoseconds. The string-typed enumerations (\<open>CommandType\<close>, \<open>FilamentType\<close>,
  \<open>PrintJobStatus\<close>) stay strings, since any string can be stored in them.
\<close>

type_synonym go_int = "64 word"
type_synonym Time = int

definition CreatePrinter :: string where "CreatePrinter = ''CREATE_PRINTER''"
definition CreateFilament :: string where "CreateFilament = ''CREATE_FILAMENT''"
definition CreatePrintJob :: string where "CreatePrintJob = ''CREATE_PRINT_JOB''"
definition UpdatePrintJob :: string where "UpdatePrintJob = ''UPDATE_PRINT_JOB''"

definition Queued :: string where "Queued = ''Queued''"
definition Running :: string where "Running = ''Running''"
definition Done :: string where "Done = ''Done''"
definition Canceled :: string where "Canceled = ''Canceled''"

record Printer =
  ID :: string
  Company :: string
  Model :: string

record Filament =
  ID :: string
  Type :: string
  Color :: string
  TotalWeightInGrams :: go_int
  RemainingWeightInGrams :: go_int

record PrintJob =
  ID :: string
  PrinterID :: string
  FilamentID :: string
  Filepath :: string
  PrintWeightInGrams :: go_int
  Status :: string
  CreatedAt :: Time
  UpdatedAt :: Time

record Store =
  Printers :: "(string, Printer) fmap"
  Filaments :: "(string, Filament) fmap"
  PrintJobs :: "(string, PrintJob) fmap"
  NextID :: "(string, go_int) fmap"

text \<open>
  The payload of a command is raw JSON, which the FSM decodes with \<open>json.Unmarshal\<close>
  into the struct its command type asks for. The bytes are represented by what that
  decoding yields for each of the three target types (\<open>None\<close> when it returns an error).
\<close>

record RawMessage =
  AsPrinter :: "Printer option"
  AsFilament :: "Filament option"
  AsPrintJob :: "PrintJob option"

record Command =
  Type :: string
  Data :: RawMessage
  ID :: string
  Status :: string

text \<open>
  The data of a Raft log entry: \<open>None\<close> when \<open>json.Unmarshal\<close> into \<open>Command\<close>
  fails, the decoded command otherwise.
\<close>

type_synonym Log = "Command option"

datatype error =
    CommandUnmarshalError
  | UnknownCommandType string
  | PayloadUnmarshalError
  | PrinterDoesNotExist string
  | FilamentDoesNotExist string
  | NotEnoughFilament go_int go_int
  | PrintJobDoesNotExist string
  | QueuedTransitionError
  | RunningTransitionError
  | TerminalTransitionError
  | UnknownStatus string
  | ReadError
  | SnapshotUnmarshalError
  | SnapshotMarshalError
  | SinkWriteError
  | SinkCloseError

datatype Response =
    PrinterResult Printer
  | FilamentResult Filament
  | PrintJobResult PrintJob

definition NewStore :: Store where
  "NewStore =
     \<lparr>Printers = fmempty, Filaments = fmempty, PrintJobs = fmempty,
      NextID = fmupd ''printjob'' 1 (fmupd ''filament'' 1 (fmupd ''printer'' 1 fmempty))\<rparr>"

subsection \<open>strconv.Itoa\<close>

fun digits :: "nat \<Rightarrow> string" where
  "digits n =
     (if n < 10 then [''0123456789'' ! n]
      else digits (n div 10) @ [''0123456789'' ! (n mod 10)])"

declare digits.simps [simp del]

definition Itoa :: "go_int \<Rightarrow> string" where
  "Itoa i = (if i <s 0 then CHR ''-'' # digits (nat (- sint i)) else digits (nat (sint i)))"

subsection \<open>Store.GetNextID\<close>

text \<open>A key missing from \<open>NextID\<close> reads as 0, Go's zero value.\<close>

definition GetNextID :: "Store \<Rightarrow> string \<Rightarrow> string \<times> Store" where
  "GetNextID s entityType =
     (let n = (case fmlookup (NextID s) entityType of None \<Rightarrow> 0 | Some n \<Rightarrow> n)
      in (Itoa n, s\<lparr>NextID := fmupd entityType (n + 1) (NextID s)\<rparr>))"

subsection \<open>ValidatePrintJobStatusTransition\<close>

definition ValidatePrintJobStatusTransition :: "string \<Rightarrow> string \<Rightarrow> error option" where
  "ValidatePrintJobStatusTransition currentStatus newStatus =
     (if currentStatus = Queued then
        (if newStatus \<noteq> Running \<and> newStatus \<noteq> Canceled then Some QueuedTransitionError
         else None)
      else if currentStatus = Running then
        (if newStatus \<noteq> Done \<and> newStatus \<noteq> Canceled then Some RunningTransitionError
         else None)
      else if currentStatus = Done \<or> currentStatus = Canceled then
        Some TerminalTransitionError
      else Some (UnknownStatus currentStatus))"

subsection \<open>Store.CheckFilamentAvailability\<close>

text \<open>
  A \<open>for ... range\<close> loop over a map visits every entry once, in an order Go leaves
  open. The model visits the keys in ascending order; \<open>weightUsed_any_order\<close> below
  shows that the order does not matter for the loop of this function.
\<close>

definition range_keys :: "(string, 'v) fmap \<Rightarrow> string list" where
  "range_keys m = sorted_list_of_fset (fmdom m)"

definition range_values :: "(string, 'v) fmap \<Rightarrow> 'v list" where
  "range_values m = map (\<lambda>k. the (fmlookup m k)) (range_keys m)"

definition addIfActive :: "string \<Rightarrow> PrintJob \<Rightarrow> go_int \<Rightarrow> go_int" where
  "addIfActive filamentID job weightUsedByOtherJobs =
     (if FilamentID job = filamentID \<and>
         (PrintJob.Status job = Queued \<or> PrintJob.Status job = Running)
      then weightUsedByOtherJobs + PrintWeightInGrams job
      else weightUsedByOtherJobs)"

definition weightUsed :: "Store \<Rightarrow> string \<Rightarrow> go_int" where
  "weightUsed s filamentID = fold (addIfActive filamentID) (range_values (PrintJobs s)) 0"

definition CheckFilamentAvailability :: "Store \<Rightarrow> string \<Rightarrow> go_int \<Rightarrow> error option" where
  "CheckFilamentAvailability s filamentID printWeight =
     (case fmlookup (Filaments s) filamentID of
        None \<Rightarrow> Some (FilamentDoesNotExist filamentID)
      | Some filament \<Rightarrow>
          (let weightUsedByOtherJobs = weightUsed s filamentID;
               remainingWeight = RemainingWeightInGrams filament - weightUsedByOtherJobs
           in if remainingWeight <s printWeight
              then Some (NotEnoughFilament printWeight remainingWeight)
              else None))"

section \<open>The state machine (store/fsm.go)\<close>

text \<open>The carrier of a snapshot, and the state machine itself (the lock is not modelled).\<close>

record fsmSnapshot =
  store :: Store

record FSM =
  store :: Store

definition NewFSM :: FSM where
  "NewFSM = \<lparr>store = NewStore\<rparr>"

text \<open>
  \<open>time.Now()\<close> reads the clock of the host that runs \<open>Apply\<close>. A \<open>Clock\<close> gives the
  readings one call of \<open>Apply\<close> gets: \<open>clk 0\<close> is the first, \<open>clk 1\<close> the second.
\<close>

type_synonym Clock = "nat \<Rightarrow> Time"

definition applyCreatePrinter :: "FSM \<Rightarrow> RawMessage \<Rightarrow> (error + Response) \<times> FSM" where
  "applyCreatePrinter f data =
     (case AsPrinter data of
        None \<Rightarrow> (Inl PayloadUnmarshalError, f)
      | Some printer \<Rightarrow>
          (let (printer, s) =
                 (if Printer.ID printer = ''''
                  then (let (newID, s) = GetNextID (store f) ''printer''
                        in (printer\<lparr>Printer.ID := newID\<rparr>, s))
                  else (printer, store f))
           in (Inr (PrinterResult printer),
               f\<lparr>store := s\<lparr>Printers := fmupd (Printer.ID printer) printer (Printers s)\<rparr>\<rparr>)))"

definition applyCreateFilament :: "FSM \<Rightarrow> RawMessage \<Rightarrow> (error + Response) \<times> FSM" where
  "applyCreateFilament f data =
     (case AsFilament data of
        None \<Rightarrow> (Inl PayloadUnmarshalError, f)
      | Some filament \<Rightarrow>
          (let (filament, s) =
                 (if Filament.ID filament = ''''
                  then (let (newID, s) = GetNextID (store f) ''filament''
                        in (filament\<lparr>Filament.ID := newID\<rparr>, s))
                  else (filament, store f));
               filament =
                 (if RemainingWeightInGrams filament = 0
                  then filament\<lparr>RemainingWeightInGrams := TotalWeightInGrams filament\<rparr>
                  else filament)
           in (Inr (FilamentResult filament),
               f\<lparr>store := s\<lparr>Filaments := fmupd (Filament.ID filament) filament (Filaments s)\<rparr>\<rparr>)))"

definition applyCreatePrintJob :: "Clock \<Rightarrow> FSM \<Rightarrow> RawMessage \<Rightarrow> (error + Response) \<times> FSM" where
  "applyCreatePrintJob clk f data =
     (case AsPrintJob data of
        None \<Rightarrow> (Inl PayloadUnmarshalError, f)
      | Some printJob \<Rightarrow>
          if fmlookup (Printers (store f)) (PrinterID printJob) = None
          then (Inl (PrinterDoesNotExist (PrinterID printJob)), f)
          else if fmlookup (Filaments (store f)) (FilamentID printJob) = None
          then (Inl (FilamentDoesNotExist (FilamentID printJob)), f)
          else
            (case CheckFilamentAvailability (store f) (FilamentID printJob)
                    (PrintWeightInGrams printJob) of
               Some err \<Rightarrow> (Inl err, f)
             | None \<Rightarrow>
                 (let (printJob, s) =
                        (if PrintJob.ID printJob = ''''
                         then (let (newID, s) = GetNextID (store f) ''printjob''
                               in (printJob\<lparr>PrintJob.ID := newID\<rparr>, s))
                         else (printJob, store f));
                      printJob = printJob\<lparr>PrintJob.Status := Queued\<rparr>;
                      printJob = printJob\<lparr>CreatedAt := clk 0\<rparr>;
                      printJob = printJob\<lparr>UpdatedAt := clk 1\<rparr>
                  in (Inr (PrintJobResult printJob),
                      f\<lparr>store := s\<lparr>PrintJobs :=
                            fmupd (PrintJob.ID printJob) printJob (PrintJobs s)\<rparr>\<rparr>))))"

text \<open>
  Reading \<open>Filaments[printJob.FilamentID]\<close> for a key that is absent gives the zero
  \<open>Filament\<close>, which the \<open>Done\<close> branch then stores under that key.
\<close>

definition zeroFilament :: Filament where
  "zeroFilament =
     \<lparr>Filament.ID = '''', Type = '''', Color = '''',
      TotalWeightInGrams = 0, RemainingWeightInGrams = 0\<rparr>"

definition applyUpdatePrintJob :: "Clock \<Rightarrow> FSM \<Rightarrow> string \<Rightarrow> string \<Rightarrow> (error + Response) \<times> FSM" where
  "applyUpdatePrintJob clk f jobID status =
     (case fmlookup (PrintJobs (store f)) jobID of
        None \<Rightarrow> (Inl (PrintJobDoesNotExist jobID), f)
      | Some printJob \<Rightarrow>
          (let newStatus = status in
           case ValidatePrintJobStatusTransition (PrintJob.Status printJob) newStatus of
             Some err \<Rightarrow> (Inl err, f)
           | None \<Rightarrow>
               (let printJob = printJob\<lparr>PrintJob.Status := newStatus\<rparr>;
                    printJob = printJob\<lparr>UpdatedAt := clk 0\<rparr>;
                    s = store f;
                    s = (if newStatus = Done then
                           (let filament =
                                  (case fmlookup (Filaments s) (FilamentID printJob) of
                                     None \<Rightarrow> zeroFilament
                                   | Some fl \<Rightarrow> fl);
                                filament = filament\<lparr>RemainingWeightInGrams :=
                                  RemainingWeightInGrams filament - PrintWeightInGrams printJob\<rparr>;
                                filament =
                                  (if RemainingWeightInGrams filament <s 0
                                   then filament\<lparr>RemainingWeightInGrams := 0\<rparr>
                                   else filament)
                            in s\<lparr>Filaments := fmupd (FilamentID printJob) filament (Filaments s)\<rparr>)
                         else s)
                in (Inr (PrintJobResult printJob),
                    f\<lparr>store := s\<lparr>PrintJobs := fmupd jobID printJob (PrintJobs s)\<rparr>\<rparr>))))"

definition Apply :: "Clock \<Rightarrow> FSM \<Rightarrow> Log \<Rightarrow> (error + Response) \<times> FSM" where
  "Apply clk f log =
     (case log of
        None \<Rightarrow> (Inl CommandUnmarshalError, f)
      | Some cmd \<Rightarrow>
          if Command.Type cmd = CreatePrinter then applyCreatePrinter f (Data cmd)
          else if Command.Type cmd = CreateFilament then applyCreateFilament f (Data cmd)
          else if Command.Type cmd = CreatePrintJob then applyCreatePrintJob clk f (Data cmd)
          else if Command.Type cmd = UpdatePrintJob
          then applyUpdatePrintJob clk f (Command.ID cmd) (Command.Status cmd)
          else (Inl (UnknownCommandType (Command.Type cmd)), f))"

subsection \<open>Snapshot, Persist and Restore\<close>

text \<open>
  \<open>Snapshot\<close> builds four fresh maps and copies the store into them entry by entry.
\<close>

definition copyMap :: "(string, 'v) fmap \<Rightarrow> (string, 'v) fmap" where
  "copyMap m = fold (\<lambda>k snapshot. fmupd k (the (fmlookup m k)) snapshot) (range_keys m) fmempty"

definition Snapshot :: "FSM \<Rightarrow> fsmSnapshot" where
  "Snapshot f =
     \<lparr>fsmSnapshot.store =
        \<lparr>Printers = copyMap (Printers (store f)),
         Filaments = copyMap (Filaments (store f)),
         PrintJobs = copyMap (PrintJobs (store f)),
         NextID = copyMap (NextID (store f))\<rparr>\<rparr>"

text \<open>
  \<open>encoding/json\<close> is not part of the repository: \<open>json.Marshal\<close> and
  \<open>json.Unmarshal\<close> on a \<open>Store\<close> are parameters of \<open>Persist\<close> and \<open>Restore\<close>,
  over any type \<open>'b\<close> of byte streams. A sink records what was written to it and
  whether it was cancelled or closed; \<open>writeFails\<close> and \<open>closeFails\<close> say how its
  \<open>Write\<close> and \<open>Close\<close> will answer.
\<close>

record 'b SnapshotSink =
  writeFails :: bool
  closeFails :: bool
  written :: "'b list"
  cancelled :: bool
  closed :: bool

definition Persist ::
  "(Store \<Rightarrow> 'b option) \<Rightarrow> fsmSnapshot \<Rightarrow> 'b SnapshotSink \<Rightarrow> error option \<times> 'b SnapshotSink" where
  "Persist marshal s sink =
     (case marshal (fsmSnapshot.store s) of
        None \<Rightarrow> (Some SnapshotMarshalError, sink\<lparr>cancelled := True\<rparr>)
      | Some data \<Rightarrow>
          if writeFails sink then (Some SinkWriteError, sink\<lparr>cancelled := True\<rparr>)
          else (let sink = sink\<lparr>written := written sink @ [data]\<rparr>
                in if closeFails sink then (Some SinkCloseError, sink)
                   else (None, sink\<lparr>closed := True\<rparr>)))"

text \<open>The reader gives \<open>Inl err\<close> when \<open>io.ReadAll\<close> fails, the bytes otherwise.\<close>

definition Restore ::
  "('b \<Rightarrow> Store option) \<Rightarrow> FSM \<Rightarrow> error + 'b \<Rightarrow> error option \<times> FSM" where
  "Restore unmarshal f rc =
     (case rc of
        Inl err \<Rightarrow> (Some err, f)
      | Inr data \<Rightarrow>
          (case unmarshal data of
             None \<Rightarrow> (Some SnapshotUnmarshalError, f)
           | Some s \<Rightarrow> (None, f\<lparr>store := s\<rparr>)))"

section \<open>Notions used to state the properties\<close>

subsection \<open>Runs\<close>

text \<open>A run applies log entries in order; each entry comes with the clock readings of its call.\<close>

fun run :: "FSM \<Rightarrow> (Clock \<times> Log) list \<Rightarrow> FSM" where
  "run f [] = f"
| "run f (entry # entries) = run (snd (Apply (fst entry) f (snd entry))) entries"

subsection \<open>The filament budget, in the words of the specification\<close>

definition active :: "PrintJob \<Rightarrow> bool" where
  "active job \<longleftrightarrow> PrintJob.Status job = Queued \<or> PrintJob.Status job = Running"

definition active_jobs_on :: "Store \<Rightarrow> string \<Rightarrow> string fset" where
  "active_jobs_on s filamentID =
     ffilter (\<lambda>k. case fmlookup (PrintJobs s) k of
                     None \<Rightarrow> False
                   | Some job \<Rightarrow> FilamentID job = filamentID \<and> active job)
       (fmdom (PrintJobs s))"

text \<open>
  \<open>available\<close> in Go's \<open>int\<close> arithmetic, \<open>activeWeight\<close> as a mathematical sum, and
  \<open>exactAvailable\<close>, the remaining weight minus that sum, over the integers.
\<close>

definition available :: "Store \<Rightarrow> string \<Rightarrow> go_int" where
  "available s filamentID =
     RemainingWeightInGrams (the (fmlookup (Filaments s) filamentID)) -
     (\<Sum>k \<in> fset (active_jobs_on s filamentID).
        PrintWeightInGrams (the (fmlookup (PrintJobs s) k)))"

definition activeWeight :: "Store \<Rightarrow> string \<Rightarrow> int" where
  "activeWeight s filamentID =
     (\<Sum>k \<in> fset (active_jobs_on s filamentID).
        sint (PrintWeightInGrams (the (fmlookup (PrintJobs s) k))))"

definition exactAvailable :: "Store \<Rightarrow> string \<Rightarrow> int" where
  "exactAvailable s filamentID =
     sint (RemainingWeightInGrams (the (fmlookup (Filaments s) filamentID))) -
     activeWeight s filamentID"

definition contribution :: "string \<Rightarrow> PrintJob \<Rightarrow> go_int" where
  "contribution filamentID job =
     (if FilamentID job = filamentID \<and> active job then PrintWeightInGrams job else 0)"

definition allowedTransitions :: "(string \<times> string) set" where
  "allowedTransitions =
     {(Queued, Running), (Queued, Canceled), (Running, Done), (Running, Canceled)}"

subsection \<open>What the commands store\<close>

definition assignID :: "Store \<Rightarrow> string \<Rightarrow> string \<Rightarrow> string \<times> Store" where
  "assignID s entityType given = (if given = '''' then GetNextID s entityType else (given, s))"

definition newPrinter :: "Store \<Rightarrow> Printer \<Rightarrow> Printer" where
  "newPrinter s printer =
     printer\<lparr>Printer.ID := fst (assignID s ''printer'' (Printer.ID printer))\<rparr>"

definition newFilament :: "Store \<Rightarrow> Filament \<Rightarrow> Filament" where
  "newFilament s filament =
     filament\<lparr>Filament.ID := fst (assignID s ''filament'' (Filament.ID filament)),
              RemainingWeightInGrams :=
                (if RemainingWeightInGrams filament = 0 then TotalWeightInGrams filament
                 else RemainingWeightInGrams filament)\<rparr>"

definition newPrintJob :: "Clock \<Rightarrow> Store \<Rightarrow> PrintJob \<Rightarrow> PrintJob" where
  "newPrintJob clk s printJob =
     printJob\<lparr>PrintJob.ID := fst (assignID s ''printjob'' (PrintJob.ID printJob)),
              PrintJob.Status := Queued, CreatedAt := clk 0, UpdatedAt := clk 1\<rparr>"

definition finishFilament :: "Store \<Rightarrow> PrintJob \<Rightarrow> Filament" where
  "finishFilament s job =
     (let filament = (case fmlookup (Filaments s) (FilamentID job) of
                        None \<Rightarrow> zeroFilament | Some fl \<Rightarrow> fl);
          r = RemainingWeightInGrams filament - PrintWeightInGrams job
      in filament\<lparr>RemainingWeightInGrams := (if r <s 0 then 0 else r)\<rparr>)"

text \<open>The printer or filament a log entry stores, if it stores one.\<close>

definition storedPrinter :: "FSM \<Rightarrow> Log \<Rightarrow> Printer option" where
  "storedPrinter f log =
     (case log of
        None \<Rightarrow> None
      | Some cmd \<Rightarrow>
          if Command.Type cmd = CreatePrinter
          then map_option (newPrinter (store f)) (AsPrinter (Data cmd))
          else None)"

definition storedFilament :: "FSM \<Rightarrow> Log \<Rightarrow> Filament option" where
  "storedFilament f log =
     (case log of
        None \<Rightarrow> None
      | Some cmd \<Rightarrow>
          if Command.Type cmd = CreateFilament
          then map_option (newFilament (store f)) (AsFilament (Data cmd))
          else None)"

definition requestedPrintJob :: "Log \<Rightarrow> PrintJob option" where
  "requestedPrintJob log =
     (case log of
        None \<Rightarrow> None
      | Some cmd \<Rightarrow> if Command.Type cmd = CreatePrintJob then AsPrintJob (Data cmd) else None)"

subsection \<open>Invariants of the specification\<close>

definition I1 :: "Store \<Rightarrow> bool" where
  "I1 s \<longleftrightarrow>
     (\<forall>k \<in> fmdom' (PrintJobs s).
        PrinterID (the (fmlookup (PrintJobs s) k)) |\<in>| fmdom (Printers s))"

definition I2 :: "Store \<Rightarrow> bool" where
  "I2 s \<longleftrightarrow>
     (\<forall>k \<in> fmdom' (PrintJobs s).
        FilamentID (the (fmlookup (PrintJobs s) k)) |\<in>| fmdom (Filaments s))"

definition I3 :: "Store \<Rightarrow> bool" where
  "I3 s \<longleftrightarrow>
     (\<forall>k \<in> fmdom' (Filaments s).
        0 \<le>s RemainingWeightInGrams (the (fmlookup (Filaments s) k)))"

definition I4 :: "Store \<Rightarrow> bool" where
  "I4 s \<longleftrightarrow>
     (\<forall>k \<in> fmdom' (Filaments s).
        activeWeight s k \<le> sint (RemainingWeightInGrams (the (fmlookup (Filaments s) k))))"

definition withinTotal :: "Store \<Rightarrow> bool" where
  "withinTotal s \<longleftrightarrow>
     (\<forall>k \<in> fmdom' (Filaments s).
        0 \<le>s RemainingWeightInGrams (the (fmlookup (Filaments s) k)) \<and>
        RemainingWeightInGrams (the (fmlookup (Filaments s) k)) \<le>s
          TotalWeightInGrams (the (fmlookup (Filaments s) k)))"

definition nonnegJobs :: "Store \<Rightarrow> bool" where
  "nonnegJobs s \<longleftrightarrow>
     (\<forall>k \<in> fmdom' (PrintJobs s).
        0 \<le>s PrintWeightInGrams (the (fmlookup (PrintJobs s) k)))"

subsection \<open>Conditions on the commands of a run\<close>

text \<open>
  \<open>nonnegPayload\<close>: a filament is stored with a remaining weight that is not negative,
  and a print job is requested with a weight that is not negative.
  \<open>boundedPayload\<close>: a filament is stored with a remaining weight within its total.
  \<open>freshFilament\<close>: a filament is stored under a key that is not in use.
\<close>

definition nonnegPayload :: "FSM \<Rightarrow> Log \<Rightarrow> bool" where
  "nonnegPayload f log \<longleftrightarrow>
     (case storedFilament f log of
        None \<Rightarrow> True | Some filament \<Rightarrow> 0 \<le>s RemainingWeightInGrams filament) \<and>
     (case requestedPrintJob log of
        None \<Rightarrow> True | Some job \<Rightarrow> 0 \<le>s PrintWeightInGrams job)"

definition boundedPayload :: "FSM \<Rightarrow> Log \<Rightarrow> bool" where
  "boundedPayload f log \<longleftrightarrow>
     (case storedFilament f log of
        None \<Rightarrow> True
      | Some filament \<Rightarrow> RemainingWeightInGrams filament \<le>s TotalWeightInGrams filament)"

definition freshFilament :: "FSM \<Rightarrow> Log \<Rightarrow> bool" where
  "freshFilament f log \<longleftrightarrow>
     (case storedFilament f log of
        None \<Rightarrow> True
      | Some filament \<Rightarrow> Filament.ID filament |\<notin>| fmdom (Filaments (store f)))"

text \<open>A condition holds along a run when it holds for each entry in the state it is applied to.\<close>

fun along :: "(FSM \<Rightarrow> Log \<Rightarrow> bool) \<Rightarrow> FSM \<Rightarrow> (Clock \<times> Log) list \<Rightarrow> bool" where
  "along P f [] = True"
| "along P f (entry # entries) =
     (P f (snd entry) \<and> along P (snd (Apply (fst entry) f (snd entry))) entries)"

section \<open>The gateway's commands (api/handlers.go) and sample data\<close>

text \<open>
  The handlers marshal the entity they bound from the request body and put it into a
  \<open>Command\<close>. Decoding such a payload into one of the other two structs succeeds as
  well: only the \<open>id\<close> key is common to them, every other field keeps its zero value.
  \<open>UpdatePrintJobStatus\<close> sends no payload, which travels as JSON \<open>null\<close>.
\<close>

definition zeroPrinter :: Printer where
  "zeroPrinter = \<lparr>Printer.ID = '''', Company = '''', Model = ''''\<rparr>"

definition zeroPrintJob :: PrintJob where
  "zeroPrintJob =
     \<lparr>PrintJob.ID = '''', PrinterID = '''', FilamentID = '''', Filepath = '''',
      PrintWeightInGrams = 0, PrintJob.Status = '''', CreatedAt = 0, UpdatedAt = 0\<rparr>"

definition idOnly :: "string \<Rightarrow> RawMessage" where
  "idOnly i =
     \<lparr>AsPrinter = Some (zeroPrinter\<lparr>Printer.ID := i\<rparr>),
      AsFilament = Some (zeroFilament\<lparr>Filament.ID := i\<rparr>),
      AsPrintJob = Some (zeroPrintJob\<lparr>PrintJob.ID := i\<rparr>)\<rparr>"

definition CreatePrinterCommand :: "Printer \<Rightarrow> Command" where
  "CreatePrinterCommand printer =
     \<lparr>Command.Type = CreatePrinter,
      Data = (idOnly (Printer.ID printer))\<lparr>AsPrinter := Some printer\<rparr>,
      Command.ID = '''', Command.Status = ''''\<rparr>"

definition CreateFilamentCommand :: "Filament \<Rightarrow> Command" where
  "CreateFilamentCommand filament =
     \<lparr>Command.Type = CreateFilament,
      Data = (idOnly (Filament.ID filament))\<lparr>AsFilament := Some filament\<rparr>,
      Command.ID = '''', Command.Status = ''''\<rparr>"

definition CreatePrintJobCommand :: "PrintJob \<Rightarrow> Command" where
  "CreatePrintJobCommand printJob =
     \<lparr>Command.Type = CreatePrintJob,
      Data = (idOnly (PrintJob.ID printJob))\<lparr>AsPrintJob := Some printJob\<rparr>,
      Command.ID = '''', Command.Status = ''''\<rparr>"

definition UpdatePrintJobStatusCommand :: "string \<Rightarrow> string \<Rightarrow> Command" where
  "UpdatePrintJobStatusCommand jobID status =
     \<lparr>Command.Type = UpdatePrintJob, Data = idOnly '''',
      Command.ID = jobID, Command.Status = status\<rparr>"

text \<open>Sample requests, and the state after a printer and a 100 g roll were created.\<close>

definition ender :: Printer where
  "ender = \<lparr>Printer.ID = '''', Company = ''Creality'', Model = ''Ender 3''\<rparr>"

definition roll :: "go_int \<Rightarrow> go_int \<Rightarrow> Filament" where
  "roll totalWeight remainingWeight =
     \<lparr>Filament.ID = '''', Type = ''PLA'', Color = ''red'',
      TotalWeightInGrams = totalWeight, RemainingWeightInGrams = remainingWeight\<rparr>"

definition job :: "go_int \<Rightarrow> PrintJob" where
  "job weight =
     \<lparr>PrintJob.ID = '''', PrinterID = ''1'', FilamentID = ''1'', Filepath = ''part.gcode'',
      PrintWeightInGrams = weight, PrintJob.Status = '''', CreatedAt = 0, UpdatedAt = 0\<rparr>"

definition clockAt :: "Time \<Rightarrow> Clock" where
  "clockAt t = (\<lambda>n. t + int n)"

definition seededStore :: Store where
  "seededStore =
     \<lparr>Printers = fmupd ''1'' (ender\<lparr>Printer.ID := ''1''\<rparr>) fmempty,
      Filaments = fmupd ''1'' ((roll 100 100)\<lparr>Filament.ID := ''1''\<rparr>) fmempty,
      PrintJobs = fmempty,
      NextID = fmupd ''filament'' 2 (fmupd ''printer'' 2
                 (fmupd ''printjob'' 1 (fmupd ''filament'' 1 (fmupd ''printer'' 1 fmempty))))\<rparr>"

definition seeded :: FSM where
  "seeded = \<lparr>store = seededStore\<rparr>"

text \<open>The sample state once job 1 of the given weight was created at time 7, in a given status.\<close>

definition withJob :: "string \<Rightarrow> go_int \<Rightarrow> FSM" where
  "withJob status weight =
     \<lparr>store = seededStore
        \<lparr>PrintJobs :=
           fmupd ''1'' ((job weight)\<lparr>PrintJob.ID := ''1'', PrintJob.Status := status,
                                      CreatedAt := 7, UpdatedAt := 8\<rparr>) fmempty,
         NextID := fmupd ''printjob'' 2 (NextID seededStore)\<rparr>\<rparr>"

text \<open>
  A store that breaks I1, I3 and I4: its only job names a printer that does not exist
  and weighs more than its filament, whose remaining weight is negative. And a decoder
  that reads the stream \<open>orphan\<close> as that store and nothing else.
\<close>

definition orphanStore :: Store where
  "orphanStore =
     \<lparr>Printers = fmempty,
      Filaments = fmupd ''1'' ((roll 100 (- 5))\<lparr>Filament.ID := ''1''\<rparr>) fmempty,
      PrintJobs = fmupd ''1'' ((job 60)\<lparr>PrintJob.ID := ''1'', PrintJob.Status := Queued\<rparr>) fmempty,
      NextID = fmempty\<rparr>"

definition sampleUnmarshal :: "string \<Rightarrow> Store option" where
  "sampleUnmarshal data = (if data = ''orphan'' then Some orphanStore else None)"

text \<open>A sink that accepts every write, with nothing written yet.\<close>

definition emptySink :: "'b SnapshotSink" where
  "emptySink =
     \<lparr>writeFails = False, closeFails = False, written = [], cancelled = False, closed = False\<rparr>"

text \<open>A second printer, sent with the id that the first one was given.\<close>

definition prusa :: Printer where
  "prusa = \<lparr>Printer.ID = ''1'', Company = ''Prusa'', Model = ''MK4''\<rparr>"

text \<open>A run from the empty store: a printer, a 100 g roll, a 60 g job that is started and finished.\<close>

definition sampleRun :: "(Clock \<times> Log) list" where
  "sampleRun =
     [(clockAt 1, Some (CreatePrinterCommand ender)),
      (clockAt 3, Some (CreateFilamentCommand (roll 100 0))),
      (clockAt 7, Some (CreatePrintJobCommand (job 60))),
      (clockAt 10, Some (UpdatePrintJobStatusCommand ''1'' Running)),
      (clockAt 20, Some (UpdatePrintJobStatusCommand ''1'' Done))]"

text \<open>A run in which a second \<open>CreateFilament\<close> reuses the id of the roll a queued job draws on.\<close>

definition overwriteRun :: "(Clock \<times> Log) list" where
  "overwriteRun =
     [(clockAt 1, Some (CreatePrinterCommand ender)),
      (clockAt 3, Some (CreateFilamentCommand (roll 100 0))),
      (clockAt 7, Some (CreatePrintJobCommand (job 60))),
      (clockAt 9, Some (CreateFilamentCommand ((roll 10 0)\<lparr>Filament.ID := ''1''\<rparr>)))]"

text \<open>
  A run from the empty store with a roll of \<open>math.MaxInt64\<close> grams and a queued job whose
  payload carries a print weight of -1 g; and the same run with that job started.
\<close>

definition maxInt :: go_int where
  "maxInt = 9223372036854775807"

definition overflowRun :: "(Clock \<times> Log) list" where
  "overflowRun =
     [(clockAt 1, Some (CreatePrinterCommand ender)),
      (clockAt 3, Some (CreateFilamentCommand (roll maxInt 0))),
      (clockAt 7, Some (CreatePrintJobCommand (job (- 1))))]"

definition startedRun :: "(Clock \<times> Log) list" where
  "startedRun = overflowRun @ [(clockAt 10, Some (UpdatePrintJobStatusCommand ''1'' Running))]"

section \<open>Basic facts about the embedding\<close>

lemmas status_defs = Queued_def Running_def Done_def Canceled_def

lemmas command_defs = CreatePrinter_def CreateFilament_def CreatePrintJob_def UpdatePrintJob_def

lemmas sample_defs =
  zeroPrinter_def zeroPrintJob_def zeroFilament_def idOnly_def CreatePrinterCommand_def
  CreateFilamentCommand_def CreatePrintJobCommand_def UpdatePrintJobStatusCommand_def
  ender_def roll_def job_def clockAt_def seededStore_def seeded_def withJob_def
  orphanStore_def sampleUnmarshal_def emptySink_def prusa_def

lemmas eval_defs =
  Apply_def applyCreatePrinter_def applyCreateFilament_def applyCreatePrintJob_def
  applyUpdatePrintJob_def GetNextID_def Itoa_def digits.simps
  ValidatePrintJobStatusTransition_def CheckFilamentAvailability_def
  command_defs status_defs Let_def word_sless_alt word_sle_eq

subsection \<open>The loop of \<open>CheckFilamentAvailability\<close>\<close>

lemma fold_addIfActive:
  "fold (addIfActive fid) jobs acc = acc + sum_list (map (contribution fid) jobs)"
  by (induction jobs arbitrary: acc) (auto simp: addIfActive_def contribution_def active_def)

lemma fold_addIfActive_keys:
  assumes "distinct ks"
  shows "fold (addIfActive fid) (map (\<lambda>k. the (fmlookup m k)) ks) 0 =
         (\<Sum>k \<in> set ks. contribution fid (the (fmlookup m k)))"
  using assms by (simp add: fold_addIfActive sum_list_distinct_conv_sum_set comp_def)

lemma range_keys_set [simp]: "set (range_keys m) = fset (fmdom m)"
  by (simp add: range_keys_def)

lemma range_keys_distinct [simp]: "distinct (range_keys m)"
  by (simp add: range_keys_def sorted_list_of_fset.rep_eq)

lemma weightUsed_sum:
  "weightUsed s fid =
   (\<Sum>k \<in> fset (fmdom (PrintJobs s)). contribution fid (the (fmlookup (PrintJobs s) k)))"
  by (simp add: weightUsed_def range_values_def fold_addIfActive_keys)

lemma weightUsed_any_order:
  assumes "distinct ks" and "set ks = fset (fmdom (PrintJobs s))"
  shows "fold (addIfActive fid) (map (\<lambda>k. the (fmlookup (PrintJobs s) k)) ks) 0 = weightUsed s fid"
  using assms by (simp add: fold_addIfActive_keys weightUsed_sum)

lemma weightUsed_active_jobs:
  "weightUsed s fid =
   (\<Sum>k \<in> fset (active_jobs_on s fid). PrintWeightInGrams (the (fmlookup (PrintJobs s) k)))"
proof -
  let ?D = "fset (fmdom (PrintJobs s))"
  let ?P = "\<lambda>k. FilamentID (the (fmlookup (PrintJobs s) k)) = fid \<and> active (the (fmlookup (PrintJobs s) k))"
  have A: "fset (active_jobs_on s fid) = {k \<in> ?D. ?P k}"
    by (auto simp: active_jobs_on_def fmlookup_dom_iff split: option.splits)
  have "weightUsed s fid = (\<Sum>k \<in> ?D. if ?P k then PrintWeightInGrams (the (fmlookup (PrintJobs s) k)) else 0)"
    by (simp add: weightUsed_sum contribution_def)
  also have "\<dots> = (\<Sum>k \<in> {k \<in> ?D. ?P k}. PrintWeightInGrams (the (fmlookup (PrintJobs s) k)))"
    by (simp add: sum.inter_filter)
  finally show ?thesis by (simp add: A)
qed

lemma CheckFilamentAvailability_available:
  assumes "fmlookup (Filaments s) fid \<noteq> None"
  shows "CheckFilamentAvailability s fid w =
         (if available s fid <s w then Some (NotEnoughFilament w (available s fid)) else None)"
  using assms
  by (auto simp: CheckFilamentAvailability_def available_def weightUsed_active_jobs Let_def)

lemma assignID_fields [simp]:
  "Printers (snd (assignID s k g)) = Printers s"
  "Filaments (snd (assignID s k g)) = Filaments s"
  "PrintJobs (snd (assignID s k g)) = PrintJobs s"
  by (simp_all add: assignID_def GetNextID_def Let_def)

lemma applyCreatePrinter_undecodable:
  "AsPrinter d = None \<Longrightarrow> applyCreatePrinter f d = (Inl PayloadUnmarshalError, f)"
  by (simp add: applyCreatePrinter_def)

lemma applyCreatePrinter_accepted:
  assumes "AsPrinter d = Some p"
  shows "applyCreatePrinter f d =
    (Inr (PrinterResult (newPrinter (store f) p)),
     f\<lparr>store := (snd (assignID (store f) ''printer'' (Printer.ID p)))
        \<lparr>Printers := fmupd (Printer.ID (newPrinter (store f) p)) (newPrinter (store f) p)
                        (Printers (store f))\<rparr>\<rparr>)"
  using assms
  by (cases "Printer.ID p = ''''")
     (simp_all add: applyCreatePrinter_def newPrinter_def assignID_def GetNextID_def Let_def)

lemma applyCreateFilament_undecodable:
  "AsFilament d = None \<Longrightarrow> applyCreateFilament f d = (Inl PayloadUnmarshalError, f)"
  by (simp add: applyCreateFilament_def)

lemma applyCreateFilament_accepted:
  assumes "AsFilament d = Some fl"
  shows "applyCreateFilament f d =
    (Inr (FilamentResult (newFilament (store f) fl)),
     f\<lparr>store := (snd (assignID (store f) ''filament'' (Filament.ID fl)))
        \<lparr>Filaments := fmupd (Filament.ID (newFilament (store f) fl)) (newFilament (store f) fl)
                         (Filaments (store f))\<rparr>\<rparr>)"
  using assms
  by (cases "Filament.ID fl = ''''"; cases "RemainingWeightInGrams fl = 0")
     (simp_all add: applyCreateFilament_def newFilament_def assignID_def GetNextID_def Let_def)

lemma applyCreatePrintJob_undecodable:
  "AsPrintJob d = None \<Longrightarrow> applyCreatePrintJob clk f d = (Inl PayloadUnmarshalError, f)"
  by (simp add: applyCreatePrintJob_def)

lemma applyCreatePrintJob_no_printer:
  "AsPrintJob d = Some pj \<Longrightarrow> fmlookup (Printers (store f)) (PrinterID pj) = None \<Longrightarrow>
   applyCreatePrintJob clk f d = (Inl (PrinterDoesNotExist (PrinterID pj)), f)"
  by (simp add: applyCreatePrintJob_def)

lemma applyCreatePrintJob_no_filament:
  "AsPrintJob d = Some pj \<Longrightarrow> fmlookup (Printers (store f)) (PrinterID pj) \<noteq> None \<Longrightarrow>
   fmlookup (Filaments (store f)) (FilamentID pj) = None \<Longrightarrow>
   applyCreatePrintJob clk f d = (Inl (FilamentDoesNotExist (FilamentID pj)), f)"
  by (auto simp: applyCreatePrintJob_def)

lemma applyCreatePrintJob_rejected:
  "AsPrintJob d = Some pj \<Longrightarrow> fmlookup (Printers (store f)) (PrinterID pj) \<noteq> None \<Longrightarrow>
   fmlookup (Filaments (store f)) (FilamentID pj) \<noteq> None \<Longrightarrow>
   CheckFilamentAvailability (store f) (FilamentID pj) (PrintWeightInGrams pj) = Some e \<Longrightarrow>
   applyCreatePrintJob clk f d = (Inl e, f)"
  by (auto simp: applyCreatePrintJob_def)

lemma applyCreatePrintJob_accepted:
  assumes "AsPrintJob d = Some pj"
    and "fmlookup (Printers (store f)) (PrinterID pj) \<noteq> None"
    and "fmlookup (Filaments (store f)) (FilamentID pj) \<noteq> None"
    and "CheckFilamentAvailability (store f) (FilamentID pj) (PrintWeightInGrams pj) = None"
  shows "applyCreatePrintJob clk f d =
    (Inr (PrintJobResult (newPrintJob clk (store f) pj)),
     f\<lparr>store := (snd (assignID (store f) ''printjob'' (PrintJob.ID pj)))
        \<lparr>PrintJobs := fmupd (PrintJob.ID (newPrintJob clk (store f) pj))
                         (newPrintJob clk (store f) pj) (PrintJobs (store f))\<rparr>\<rparr>)"
  using assms
  by (cases "PrintJob.ID pj = ''''")
     (auto simp: applyCreatePrintJob_def newPrintJob_def assignID_def GetNextID_def Let_def)

lemma applyCreatePrinter_error:
  "fst (applyCreatePrinter f d) = Inl e \<Longrightarrow> snd (applyCreatePrinter f d) = f"
  by (cases "AsPrinter d")
     (simp_all add: applyCreatePrinter_undecodable applyCreatePrinter_accepted)

lemma applyCreateFilament_error:
  "fst (applyCreateFilament f d) = Inl e \<Longrightarrow> snd (applyCreateFilament f d) = f"
  by (cases "AsFilament d")
     (simp_all add: applyCreateFilament_undecodable applyCreateFilament_accepted)

lemma applyCreatePrintJob_error:
  assumes "fst (applyCreatePrintJob clk f d) = Inl e"
  shows "snd (applyCreatePrintJob clk f d) = f"
proof (cases "AsPrintJob d")
  case None
  then show ?thesis by (simp add: applyCreatePrintJob_undecodable)
next
  case (Some pj)
  show ?thesis
  proof (cases "fmlookup (Printers (store f)) (PrinterID pj) = None")
    case True
    with Some show ?thesis by (simp add: applyCreatePrintJob_no_printer)
  next
    case printer: False
    show ?thesis
    proof (cases "fmlookup (Filaments (store f)) (FilamentID pj) = None")
      case True
      with Some printer show ?thesis by (simp add: applyCreatePrintJob_no_filament)
    next
      case filament: False
      show ?thesis
      proof (cases "CheckFilamentAvailability (store f) (FilamentID pj) (PrintWeightInGrams pj)")
        case None
        from applyCreatePrintJob_accepted [OF Some printer filament None] assms
        show ?thesis by simp
      next
        case (Some e')
        from applyCreatePrintJob_rejected [OF \<open>AsPrintJob d = Some pj\<close> printer filament Some]
        show ?thesis by simp
      qed
    qed
  qed
qed

lemma applyUpdatePrintJob_missing:
  "fmlookup (PrintJobs (store f)) i = None \<Longrightarrow>
   applyUpdatePrintJob clk f i st = (Inl (PrintJobDoesNotExist i), f)"
  by (simp add: applyUpdatePrintJob_def)

lemma applyUpdatePrintJob_rejected:
  "fmlookup (PrintJobs (store f)) i = Some j \<Longrightarrow>
   ValidatePrintJobStatusTransition (PrintJob.Status j) st = Some e \<Longrightarrow>
   applyUpdatePrintJob clk f i st = (Inl e, f)"
  by (simp add: applyUpdatePrintJob_def)

lemma applyUpdatePrintJob_accepted:
  assumes "fmlookup (PrintJobs (store f)) i = Some j"
    and "ValidatePrintJobStatusTransition (PrintJob.Status j) st = None"
  shows "applyUpdatePrintJob clk f i st =
    (Inr (PrintJobResult (j\<lparr>PrintJob.Status := st, UpdatedAt := clk 0\<rparr>)),
     f\<lparr>store := (store f)
        \<lparr>Filaments := (if st = Done
                       then fmupd (FilamentID j) (finishFilament (store f) j) (Filaments (store f))
                       else Filaments (store f)),
         PrintJobs := fmupd i (j\<lparr>PrintJob.Status := st, UpdatedAt := clk 0\<rparr>)
                        (PrintJobs (store f))\<rparr>\<rparr>)"
  using assms
  by (cases "fmlookup (Filaments (store f)) (FilamentID j)")
     (simp_all add: applyUpdatePrintJob_def finishFilament_def Let_def)

lemma applyUpdatePrintJob_error:
  assumes "fst (applyUpdatePrintJob clk f i st) = Inl e"
  shows "snd (applyUpdatePrintJob clk f i st) = f"
proof (cases "fmlookup (PrintJobs (store f)) i")
  case None
  then show ?thesis by (simp add: applyUpdatePrintJob_missing)
next
  case (Some j)
  show ?thesis
  proof (cases "ValidatePrintJobStatusTransition (PrintJob.Status j) st")
    case None
    with Some assms show ?thesis by (simp add: applyUpdatePrintJob_accepted)
  next
    case (Some e')
    with \<open>fmlookup (PrintJobs (store f)) i = Some j\<close> show ?thesis
      by (simp add: applyUpdatePrintJob_rejected)
  qed
qed

lemma Apply_undecodable: "Apply clk f None = (Inl CommandUnmarshalError, f)"
  by (simp add: Apply_def)

lemma Apply_CreatePrinter:
  "Command.Type cmd = CreatePrinter \<Longrightarrow> Apply clk f (Some cmd) = applyCreatePrinter f (Data cmd)"
  by (simp add: Apply_def)

lemma Apply_CreateFilament:
  "Command.Type cmd = CreateFilament \<Longrightarrow> Apply clk f (Some cmd) = applyCreateFilament f (Data cmd)"
  by (simp add: Apply_def CreatePrinter_def CreateFilament_def)

lemma Apply_CreatePrintJob:
  "Command.Type cmd = CreatePrintJob \<Longrightarrow>
   Apply clk f (Some cmd) = applyCreatePrintJob clk f (Data cmd)"
  by (simp add: Apply_def CreatePrinter_def CreateFilament_def CreatePrintJob_def)

lemma Apply_UpdatePrintJob:
  "Command.Type cmd = UpdatePrintJob \<Longrightarrow>
   Apply clk f (Some cmd) = applyUpdatePrintJob clk f (Command.ID cmd) (Command.Status cmd)"
  by (simp add: Apply_def CreatePrinter_def CreateFilament_def CreatePrintJob_def
        UpdatePrintJob_def)

lemma Apply_unknown:
  "Command.Type cmd \<notin> {CreatePrinter, CreateFilament, CreatePrintJob, UpdatePrintJob} \<Longrightarrow>
   Apply clk f (Some cmd) = (Inl (UnknownCommandType (Command.Type cmd)), f)"
  by (simp add: Apply_def)

lemma Apply_error_unchanged:
  assumes "fst (Apply clk f log) = Inl e"
  shows "snd (Apply clk f log) = f"
proof (cases log)
  case None
  then show ?thesis by (simp add: Apply_undecodable)
next
  case (Some cmd)
  consider "Command.Type cmd = CreatePrinter" | "Command.Type cmd = CreateFilament"
    | "Command.Type cmd = CreatePrintJob" | "Command.Type cmd = UpdatePrintJob"
    | "Command.Type cmd \<notin> {CreatePrinter, CreateFilament, CreatePrintJob, UpdatePrintJob}"
    by blast
  then show ?thesis
  proof cases
    case 1
    with assms Some show ?thesis by (simp add: Apply_CreatePrinter applyCreatePrinter_error)
  next
    case 2
    with assms Some show ?thesis by (simp add: Apply_CreateFilament applyCreateFilament_error)
  next
    case 3
    with assms Some show ?thesis by (simp add: Apply_CreatePrintJob applyCreatePrintJob_error)
  next
    case 4
    with assms Some show ?thesis by (simp add: Apply_UpdatePrintJob applyUpdatePrintJob_error)
  next
    case 5
    with Some show ?thesis by (simp add: Apply_unknown)
  qed
qed

subsection \<open>The transition table\<close>

lemma Validate_allowed:
  "ValidatePrintJobStatusTransition c n = None \<longleftrightarrow> (c, n) \<in> allowedTransitions"
  by (auto simp: ValidatePrintJobStatusTransition_def allowedTransitions_def status_defs)

lemma Validate_terminal:
  "c = Done \<or> c = Canceled \<Longrightarrow> ValidatePrintJobStatusTransition c n = Some TerminalTransitionError"
  by (auto simp: ValidatePrintJobStatusTransition_def status_defs)

subsection \<open>Signed arithmetic without overflow\<close>

lemma sint_sub_in_range:
  fixes a b :: go_int
  assumes "- (2 ^ 63) \<le> sint a - sint b" and "sint a - sint b < 2 ^ 63"
  shows "sint (a - b) = sint a - sint b"
  using assms by (simp add: sint_word_ariths signed_take_bit_int_eq_self)

lemma sint_add_in_range:
  fixes a b :: go_int
  assumes "- (2 ^ 63) \<le> sint a + sint b" and "sint a + sint b < 2 ^ 63"
  shows "sint (a + b) = sint a + sint b"
  using assms by (simp add: sint_word_ariths signed_take_bit_int_eq_self)

lemma sless_zero_iff: "(x :: go_int) <s 0 \<longleftrightarrow> sint x < 0"
  by (simp add: word_sless_alt)

lemma sle_zero_iff: "0 \<le>s (x :: go_int) \<longleftrightarrow> 0 \<le> sint x"
  by (simp add: word_sle_eq)

lemma finishFilament_remaining:
  assumes "fmlookup (Filaments s) (FilamentID j) = Some fl"
  shows "finishFilament s j = fl\<lparr>RemainingWeightInGrams := RemainingWeightInGrams (finishFilament s j)\<rparr>"
    and "sint (RemainingWeightInGrams (finishFilament s j)) =
           max 0 (sint (RemainingWeightInGrams fl - PrintWeightInGrams j))"
  using assms by (simp_all add: finishFilament_def Let_def sless_zero_iff)

lemma not_sless_iff: "\<not> (a :: go_int) <s b \<longleftrightarrow> b \<le>s a"
  by (auto simp: word_sless_alt word_sle_eq)

subsection \<open>The copying loops of \<open>Snapshot\<close>\<close>

lemma fold_fmupd_lookup:
  "fmlookup (fold (\<lambda>k snapshot. fmupd k (the (fmlookup m k)) snapshot) ks acc) x =
     (if x \<in> set ks then Some (the (fmlookup m x)) else fmlookup acc x)"
  by (induction ks arbitrary: acc) auto

lemma copyMap_id: "copyMap m = m"
proof (rule fmap_ext)
  fix x
  show "fmlookup (copyMap m) x = fmlookup m x"
    by (cases "fmlookup m x")
       (auto simp: copyMap_def fold_fmupd_lookup fmlookup_dom_iff)
qed

lemma copyMap_any_order:
  assumes "set ks = fset (fmdom m)"
  shows "fold (\<lambda>k snapshot. fmupd k (the (fmlookup m k)) snapshot) ks fmempty = m"
proof (rule fmap_ext)
  fix x
  show "fmlookup (fold (\<lambda>k snapshot. fmupd k (the (fmlookup m k)) snapshot) ks fmempty) x =
        fmlookup m x"
    using assms by (cases "fmlookup m x") (auto simp: fold_fmupd_lookup fmlookup_dom_iff)
qed

lemma Snapshot_store: "fsmSnapshot.store (Snapshot f) = store f"
  by (simp add: Snapshot_def copyMap_id)

subsection \<open>One step of \<open>Apply\<close>, by cases\<close>

lemma Apply_cases [case_names unchanged printer filament job update]:
  obtains
    (unchanged) "snd (Apply clk f log) = f"
      and "storedPrinter f log = None" and "storedFilament f log = None"
  | (printer) cmd p where "log = Some cmd" and "Command.Type cmd = CreatePrinter"
      and "AsPrinter (Data cmd) = Some p"
      and "snd (Apply clk f log) =
        f\<lparr>store := (snd (assignID (store f) ''printer'' (Printer.ID p)))
           \<lparr>Printers := fmupd (Printer.ID (newPrinter (store f) p)) (newPrinter (store f) p)
                           (Printers (store f))\<rparr>\<rparr>"
  | (filament) cmd fl where "log = Some cmd" and "Command.Type cmd = CreateFilament"
      and "AsFilament (Data cmd) = Some fl"
      and "snd (Apply clk f log) =
        f\<lparr>store := (snd (assignID (store f) ''filament'' (Filament.ID fl)))
           \<lparr>Filaments := fmupd (Filament.ID (newFilament (store f) fl)) (newFilament (store f) fl)
                            (Filaments (store f))\<rparr>\<rparr>"
  | (job) cmd pj where "log = Some cmd" and "Command.Type cmd = CreatePrintJob"
      and "AsPrintJob (Data cmd) = Some pj"
      and "fmlookup (Printers (store f)) (PrinterID pj) \<noteq> None"
      and "fmlookup (Filaments (store f)) (FilamentID pj) \<noteq> None"
      and "CheckFilamentAvailability (store f) (FilamentID pj) (PrintWeightInGrams pj) = None"
      and "snd (Apply clk f log) =
        f\<lparr>store := (snd (assignID (store f) ''printjob'' (PrintJob.ID pj)))
           \<lparr>PrintJobs := fmupd (PrintJob.ID (newPrintJob clk (store f) pj))
                            (newPrintJob clk (store f) pj) (PrintJobs (store f))\<rparr>\<rparr>"
  | (update) cmd j where "log = Some cmd" and "Command.Type cmd = UpdatePrintJob"
      and "fmlookup (PrintJobs (store f)) (Command.ID cmd) = Some j"
      and "ValidatePrintJobStatusTransition (PrintJob.Status j) (Command.Status cmd) = None"
      and "snd (Apply clk f log) =
        f\<lparr>store := (store f)
           \<lparr>Filaments := (if Command.Status cmd = Done
                          then fmupd (FilamentID j) (finishFilament (store f) j) (Filaments (store f))
                          else Filaments (store f)),
            PrintJobs := fmupd (Command.ID cmd)
                           (j\<lparr>PrintJob.Status := Command.Status cmd, UpdatedAt := clk 0\<rparr>)
                           (PrintJobs (store f))\<rparr>\<rparr>"
proof (cases log)
  case None
  then show ?thesis
    using unchanged by (simp add: Apply_undecodable storedPrinter_def storedFilament_def)
next
  case (Some cmd)
  consider (a) "Command.Type cmd = CreatePrinter" | (b) "Command.Type cmd = CreateFilament"
    | (c) "Command.Type cmd = CreatePrintJob" | (d) "Command.Type cmd = UpdatePrintJob"
    | (e) "Command.Type cmd \<notin> {CreatePrinter, CreateFilament, CreatePrintJob, UpdatePrintJob}"
    by blast
  then show ?thesis
  proof cases
    case a
    show ?thesis
    proof (cases "AsPrinter (Data cmd)")
      case None
      with Some a show ?thesis
        using unchanged
        by (simp add: Apply_CreatePrinter applyCreatePrinter_undecodable storedPrinter_def
              storedFilament_def command_defs)
    next
      case (Some p)
      with \<open>log = Some cmd\<close> a show ?thesis
        using printer [of cmd p]
        by (simp add: Apply_CreatePrinter applyCreatePrinter_accepted)
    qed
  next
    case b
    show ?thesis
    proof (cases "AsFilament (Data cmd)")
      case None
      with Some b show ?thesis
        using unchanged
        by (simp add: Apply_CreateFilament applyCreateFilament_undecodable storedPrinter_def
              storedFilament_def command_defs)
    next
      case (Some fl)
      with \<open>log = Some cmd\<close> b show ?thesis
        using filament [of cmd fl]
        by (simp add: Apply_CreateFilament applyCreateFilament_accepted)
    qed
  next
    case c
    have none: "storedPrinter f log = None" "storedFilament f log = None"
      using Some c by (simp_all add: storedPrinter_def storedFilament_def command_defs)
    have ap: "Apply clk f log = applyCreatePrintJob clk f (Data cmd)"
      using Some c by (simp add: Apply_CreatePrintJob)
    show ?thesis
    proof (cases "fst (Apply clk f log)")
      case (Inl e)
      then have "snd (Apply clk f log) = f" by (rule Apply_error_unchanged)
      with none show ?thesis using unchanged by simp
    next
      case (Inr r)
      show ?thesis
      proof (cases "AsPrintJob (Data cmd)")
        case None
        with Inr ap show ?thesis by (simp add: applyCreatePrintJob_undecodable)
      next
        case pj: (Some pj)
        have p: "fmlookup (Printers (store f)) (PrinterID pj) \<noteq> None"
        proof
          assume "fmlookup (Printers (store f)) (PrinterID pj) = None"
          from applyCreatePrintJob_no_printer [OF pj this, of clk] Inr ap show False by simp
        qed
        have fl: "fmlookup (Filaments (store f)) (FilamentID pj) \<noteq> None"
        proof
          assume "fmlookup (Filaments (store f)) (FilamentID pj) = None"
          from applyCreatePrintJob_no_filament [OF pj p this, of clk] Inr ap show False by simp
        qed
        have chk: "CheckFilamentAvailability (store f) (FilamentID pj) (PrintWeightInGrams pj) = None"
        proof (cases "CheckFilamentAvailability (store f) (FilamentID pj) (PrintWeightInGrams pj)")
          case None then show ?thesis .
        next
          case (Some e)
          from applyCreatePrintJob_rejected [OF pj p fl Some, of clk] Inr ap
          show ?thesis by simp
        qed
        from applyCreatePrintJob_accepted [OF pj p fl chk, of clk] ap
        show ?thesis
          using job [of cmd pj] Some c pj p fl chk by simp
      qed
    qed
  next
    case d
    have none: "storedPrinter f log = None" "storedFilament f log = None"
      using Some d by (simp_all add: storedPrinter_def storedFilament_def command_defs)
    have ap: "Apply clk f log = applyUpdatePrintJob clk f (Command.ID cmd) (Command.Status cmd)"
      using Some d by (simp add: Apply_UpdatePrintJob)
    show ?thesis
    proof (cases "fmlookup (PrintJobs (store f)) (Command.ID cmd)")
      case None
      with ap none show ?thesis using unchanged by (simp add: applyUpdatePrintJob_missing)
    next
      case j: (Some j)
      show ?thesis
      proof (cases "ValidatePrintJobStatusTransition (PrintJob.Status j) (Command.Status cmd)")
        case None
        from applyUpdatePrintJob_accepted [OF j None, of clk] ap
        show ?thesis using update [of cmd j] Some d j None by simp
      next
        case (Some e)
        from applyUpdatePrintJob_rejected [OF j Some, of clk] ap none
        show ?thesis using unchanged by simp
      qed
    qed
  next
    case e
    then have "Command.Type cmd \<noteq> CreatePrinter" "Command.Type cmd \<noteq> CreateFilament" by auto
    with Some e show ?thesis
      using unchanged by (simp add: Apply_unknown storedPrinter_def storedFilament_def)
  qed
qed


lemma storedPrinter_CreatePrinter:
  "Command.Type cmd = CreatePrinter \<Longrightarrow> AsPrinter (Data cmd) = Some p \<Longrightarrow>
   storedPrinter f (Some cmd) = Some (newPrinter (store f) p)"
  by (simp add: storedPrinter_def)

lemma storedFilament_CreateFilament:
  "Command.Type cmd = CreateFilament \<Longrightarrow> AsFilament (Data cmd) = Some fl \<Longrightarrow>
   storedFilament f (Some cmd) = Some (newFilament (store f) fl)"
  by (simp add: storedFilament_def)

lemma storedPrinter_other:
  "Command.Type cmd \<noteq> CreatePrinter \<Longrightarrow> storedPrinter f (Some cmd) = None"
  by (simp add: storedPrinter_def)

lemma storedFilament_other:
  "Command.Type cmd \<noteq> CreateFilament \<Longrightarrow> storedFilament f (Some cmd) = None"
  by (simp add: storedFilament_def)

lemma command_types_distinct:
  "CreatePrinter \<noteq> CreateFilament" "CreatePrinter \<noteq> CreatePrintJob" "CreatePrinter \<noteq> UpdatePrintJob"
  "CreateFilament \<noteq> CreatePrinter" "CreateFilament \<noteq> CreatePrintJob" "CreateFilament \<noteq> UpdatePrintJob"
  "CreatePrintJob \<noteq> CreatePrinter" "CreatePrintJob \<noteq> CreateFilament" "CreatePrintJob \<noteq> UpdatePrintJob"
  "UpdatePrintJob \<noteq> CreatePrinter" "UpdatePrintJob \<noteq> CreateFilament" "UpdatePrintJob \<noteq> CreatePrintJob"
  by (simp_all add: command_defs)

lemma Apply_keeps_printer:
  assumes "fmlookup (Printers (store f)) i = Some p"
  shows "(\<exists>p'. fmlookup (Printers (store (snd (Apply clk f log)))) i = Some p') \<and>
         ((\<forall>q. storedPrinter f log = Some q \<longrightarrow> Printer.ID q \<noteq> i) \<longrightarrow>
            fmlookup (Printers (store (snd (Apply clk f log)))) i = Some p)"
proof (cases rule: Apply_cases [of clk f log])
  case unchanged
  with assms show ?thesis by simp
next
  case (printer cmd q)
  with assms show ?thesis by (simp add: storedPrinter_CreatePrinter)
next
  case (filament cmd fl)
  with assms show ?thesis by simp
next
  case (job cmd pj)
  with assms show ?thesis by simp
next
  case (update cmd j)
  with assms show ?thesis by simp
qed

lemma Apply_keeps_filament:
  assumes "fmlookup (Filaments (store f)) k = Some fl"
  shows "\<exists>fl'. fmlookup (Filaments (store (snd (Apply clk f log)))) k = Some fl' \<and>
           ((\<forall>q. storedFilament f log = Some q \<longrightarrow> Filament.ID q \<noteq> k) \<longrightarrow>
              fl' = fl\<lparr>RemainingWeightInGrams := RemainingWeightInGrams fl'\<rparr>)"
proof (cases rule: Apply_cases [of clk f log])
  case unchanged
  with assms show ?thesis by simp
next
  case (printer cmd q)
  with assms show ?thesis by simp
next
  case (filament cmd q)
  with assms show ?thesis by (simp add: storedFilament_CreateFilament)
next
  case (job cmd pj)
  with assms show ?thesis by simp
next
  case (update cmd j)
  show ?thesis
  proof (cases "Command.Status cmd = Done \<and> FilamentID j = k")
    case True
    with assms have "finishFilament (store f) j =
        fl\<lparr>RemainingWeightInGrams := RemainingWeightInGrams (finishFilament (store f) j)\<rparr>"
      using finishFilament_remaining(1) [of "store f" j fl] by simp
    with True update show ?thesis by simp
  next
    case False
    with assms update show ?thesis by auto
  qed
qed

lemma weightUsed_empty [simp]: "PrintJobs s = fmempty \<Longrightarrow> weightUsed s k = 0"
  by (simp add: weightUsed_sum)

subsection \<open>Weights stay within bounds\<close>

lemma sint_bounds: "- (2 ^ 63) \<le> sint (x :: go_int)" "sint (x :: go_int) < 2 ^ 63"
  using sint_ge [of x] sint_lt [of x] by simp_all

lemma clamp_within:
  fixes r t w :: go_int
  assumes "0 \<le>s r" and "r \<le>s t" and "0 \<le>s w"
  shows "0 \<le>s (if r - w <s 0 then 0 else r - w) \<and> (if r - w <s 0 then 0 else r - w) \<le>s t"
proof -
  have "sint (r - w) = sint r - sint w"
    using assms sint_bounds [of r] sint_bounds [of w]
    by (intro sint_sub_in_range) (simp_all add: word_sle_eq)
  with assms show ?thesis
    by (simp add: word_sle_eq word_sless_alt)
qed

lemma clamp_zero:
  fixes w :: go_int
  assumes "0 \<le>s w"
  shows "(if 0 - w <s 0 then 0 else 0 - w) = 0"
proof (cases "0 - w <s 0")
  case True
  then show ?thesis by simp
next
  case False
  have "sint (0 - w) = sint (0 :: go_int) - sint w"
    using assms sint_bounds [of w]
    by (intro sint_sub_in_range) (simp_all add: word_sle_eq)
  with assms False have "sint (0 - w) = 0"
    by (simp add: word_sle_eq word_sless_alt)
  then have "0 - w = 0"
    by (simp only: signed_eq_0_iff)
  with False show ?thesis by simp
qed

lemma finishFilament_within:
  assumes "withinTotal s" and "0 \<le>s PrintWeightInGrams j"
  shows "0 \<le>s RemainingWeightInGrams (finishFilament s j) \<and>
         RemainingWeightInGrams (finishFilament s j) \<le>s TotalWeightInGrams (finishFilament s j)"
proof (cases "fmlookup (Filaments s) (FilamentID j)")
  case None
  then have "finishFilament s j =
      zeroFilament\<lparr>RemainingWeightInGrams :=
        (if 0 - PrintWeightInGrams j <s 0 then 0 else 0 - PrintWeightInGrams j)\<rparr>"
    by (simp only: finishFilament_def Let_def zeroFilament_def option.case Filament.simps)
  then have "finishFilament s j = zeroFilament"
    by (simp only: clamp_zero [OF assms(2)]) (simp add: zeroFilament_def)
  then show ?thesis
    by (simp add: zeroFilament_def word_sle_eq)
next
  case (Some fl)
  then have "FilamentID j \<in> fmdom' (Filaments s)" by (simp add: fmdom'I)
  with assms(1) Some have "0 \<le>s RemainingWeightInGrams fl"
    "RemainingWeightInGrams fl \<le>s TotalWeightInGrams fl"
    by (auto simp: withinTotal_def)
  from clamp_within [OF this assms(2)] Some show ?thesis
    by (simp add: finishFilament_def Let_def)
qed

lemma withinTotal_fmupd:
  assumes "withinTotal s" and "0 \<le>s RemainingWeightInGrams fl"
    and "RemainingWeightInGrams fl \<le>s TotalWeightInGrams fl"
    and "Filaments s' = fmupd k fl (Filaments s)"
  shows "withinTotal s'"
  using assms by (auto simp: withinTotal_def)

lemma nonnegJobs_fmupd:
  assumes "nonnegJobs s" and "0 \<le>s PrintWeightInGrams j"
    and "PrintJobs s' = fmupd k j (PrintJobs s)"
  shows "nonnegJobs s'"
  using assms by (auto simp: nonnegJobs_def)

lemma nonnegJobs_lookup:
  "nonnegJobs s \<Longrightarrow> fmlookup (PrintJobs s) k = Some j \<Longrightarrow> 0 \<le>s PrintWeightInGrams j"
proof -
  assume inv: "nonnegJobs s" and j: "fmlookup (PrintJobs s) k = Some j"
  from j have "k \<in> fmdom' (PrintJobs s)" by (rule fmdom'I)
  with inv have "0 \<le>s PrintWeightInGrams (the (fmlookup (PrintJobs s) k))"
    by (simp add: nonnegJobs_def)
  with j show ?thesis by simp
qed

lemma withinTotal_frame [simp]:
  "withinTotal (s\<lparr>Printers := ps\<rparr>) = withinTotal s"
  "withinTotal (s\<lparr>PrintJobs := js\<rparr>) = withinTotal s"
  "withinTotal (snd (assignID s k g)) = withinTotal s"
  by (simp_all add: withinTotal_def)

lemma nonnegJobs_frame [simp]:
  "nonnegJobs (s\<lparr>Printers := ps\<rparr>) = nonnegJobs s"
  "nonnegJobs (s\<lparr>Filaments := fs\<rparr>) = nonnegJobs s"
  "nonnegJobs (snd (assignID s k g)) = nonnegJobs s"
  "nonnegJobs (s\<lparr>Filaments := fs, PrintJobs := js\<rparr>) = nonnegJobs (s\<lparr>PrintJobs := js\<rparr>)"
  by (simp_all add: nonnegJobs_def)

lemma requestedPrintJob_CreatePrintJob:
  "Command.Type cmd = CreatePrintJob \<Longrightarrow> requestedPrintJob (Some cmd) = AsPrintJob (Data cmd)"
  by (simp add: requestedPrintJob_def)

lemma Apply_preserves_bounds:
  assumes "withinTotal (store f)" and "nonnegJobs (store f)"
    and "nonnegPayload f log" and "boundedPayload f log"
  shows "withinTotal (store (snd (Apply clk f log))) \<and> nonnegJobs (store (snd (Apply clk f log)))"
proof (cases rule: Apply_cases [of clk f log])
  case unchanged
  with assms show ?thesis by simp
next
  case (printer cmd p)
  with assms(1,2) show ?thesis by simp
next
  case (filament cmd fl)
  let ?q = "newFilament (store f) fl"
  let ?s = "snd (assignID (store f) ''filament'' (Filament.ID fl))"
  from filament have st: "storedFilament f log = Some ?q"
    by (simp add: storedFilament_CreateFilament)
  with assms(3,4) have q: "0 \<le>s RemainingWeightInGrams ?q"
    "RemainingWeightInGrams ?q \<le>s TotalWeightInGrams ?q"
    by (simp_all add: nonnegPayload_def boundedPayload_def)
  have "withinTotal (?s\<lparr>Filaments := fmupd (Filament.ID ?q) ?q (Filaments (store f))\<rparr>)"
    by (rule withinTotal_fmupd [OF assms(1) q]) simp
  with assms(2) filament(4) show ?thesis by simp
next
  case (job cmd pj)
  let ?j = "newPrintJob clk (store f) pj"
  let ?s = "snd (assignID (store f) ''printjob'' (PrintJob.ID pj))"
  from job have "requestedPrintJob log = Some pj"
    by (simp add: requestedPrintJob_CreatePrintJob)
  with assms(3) have w: "0 \<le>s PrintWeightInGrams ?j"
    by (simp add: nonnegPayload_def newPrintJob_def)
  have "nonnegJobs (?s\<lparr>PrintJobs := fmupd (PrintJob.ID ?j) ?j (PrintJobs (store f))\<rparr>)"
    by (rule nonnegJobs_fmupd [OF assms(2) w]) simp
  with assms(1) job(7) show ?thesis by simp
next
  case (update cmd j)
  let ?j = "j\<lparr>PrintJob.Status := Command.Status cmd, UpdatedAt := clk 0\<rparr>"
  have w: "0 \<le>s PrintWeightInGrams j"
    using assms(2) update(3) by (rule nonnegJobs_lookup)
  then have w': "0 \<le>s PrintWeightInGrams ?j" by simp
  have jobs: "nonnegJobs ((store f)\<lparr>PrintJobs := fmupd (Command.ID cmd) ?j (PrintJobs (store f))\<rparr>)"
    by (rule nonnegJobs_fmupd [OF assms(2) w']) simp
  show ?thesis
  proof (cases "Command.Status cmd = Done")
    case True
    from finishFilament_within [OF assms(1) w] have fin:
      "0 \<le>s RemainingWeightInGrams (finishFilament (store f) j)"
      "RemainingWeightInGrams (finishFilament (store f) j) \<le>s TotalWeightInGrams (finishFilament (store f) j)"
      by simp_all
    have "withinTotal ((store f)\<lparr>Filaments :=
        fmupd (FilamentID j) (finishFilament (store f) j) (Filaments (store f))\<rparr>)"
      by (rule withinTotal_fmupd [OF assms(1) fin]) simp
    with jobs True update(5) show ?thesis by simp
  next
    case False
    with jobs assms(1) update(5) show ?thesis by simp
  qed
qed

lemma run_preserves_bounds:
  assumes "along nonnegPayload f entries" and "along boundedPayload f entries"
    and "withinTotal (store f)" and "nonnegJobs (store f)"
  shows "withinTotal (store (run f entries)) \<and> nonnegJobs (store (run f entries))"
  using assms
proof (induction entries arbitrary: f)
  case Nil
  then show ?case by simp
next
  case (Cons entry entries)
  from Cons.prems have step:
    "withinTotal (store (snd (Apply (fst entry) f (snd entry)))) \<and>
     nonnegJobs (store (snd (Apply (fst entry) f (snd entry))))"
    by (intro Apply_preserves_bounds) simp_all
  with Cons.prems Cons.IH [of "snd (Apply (fst entry) f (snd entry))"] show ?case
    by simp
qed

lemma along_take: "along P f entries \<Longrightarrow> along P f (take n entries)"
proof (induction entries arbitrary: f n)
  case Nil
  then show ?case by simp
next
  case (Cons entry entries)
  then show ?case by (cases n) simp_all
qed

lemma NewStore_bounds: "withinTotal NewStore" "nonnegJobs NewStore"
  by (simp_all add: withinTotal_def nonnegJobs_def NewStore_def)

subsection \<open>The sample run\<close>

lemmas run_defs =
  sampleRun_def overwriteRun_def run.simps along.simps nonnegPayload_def boundedPayload_def freshFilament_def
  storedFilament_def storedPrinter_def requestedPrintJob_def newFilament_def newPrinter_def
  assignID_def weightUsed_sum contribution_def active_def

lemma sampleRun_result:
  "run NewFSM sampleRun =
     \<lparr>store = \<lparr>Printers = fmupd ''1'' (ender\<lparr>Printer.ID := ''1''\<rparr>) fmempty,
        Filaments = fmupd ''1'' ((roll 100 40)\<lparr>Filament.ID := ''1''\<rparr>) fmempty,
        PrintJobs = fmupd ''1'' ((job 60)\<lparr>PrintJob.ID := ''1'', PrintJob.Status := Done,
                                          CreatedAt := 7, UpdatedAt := 20\<rparr>) fmempty,
        NextID = fmupd ''printjob'' 2 (fmupd ''filament'' 2 (fmupd ''printer'' 2 fmempty))\<rparr>\<rparr>"
  apply (simp add: run_defs eval_defs sample_defs NewFSM_def NewStore_def)
  apply (rule fmap_ext)
  apply simp
  done


lemma sampleRun_along:
  "along nonnegPayload NewFSM sampleRun" "along boundedPayload NewFSM sampleRun"
  "along freshFilament NewFSM sampleRun"
  by (simp_all add: run_defs eval_defs sample_defs NewFSM_def NewStore_def)

subsection \<open>The filament budget as an invariant\<close>

lemma sint_of_int_in_range:
  assumes "- (2 ^ 63) \<le> k" and "k < 2 ^ 63"
  shows "sint (word_of_int k :: go_int) = k"
  using assms by (simp add: sint_sbintrunc' signed_take_bit_int_eq_self)

lemma sum_fmupd:
  fixes g :: "'v \<Rightarrow> 'a::ab_group_add"
  shows "(\<Sum>x \<in> fmdom' (fmupd k v m). g (the (fmlookup (fmupd k v m) x))) =
         (\<Sum>x \<in> fmdom' m. g (the (fmlookup m x))) -
         (case fmlookup m k of None \<Rightarrow> 0 | Some old \<Rightarrow> g old) + g v"
proof -
  have fin: "finite (fmdom' m)" by (simp add: fmdom'_alt_def)
  have rest: "(\<Sum>x \<in> fmdom' m - {k}. g (the (fmlookup (fmupd k v m) x))) =
              (\<Sum>x \<in> fmdom' m - {k}. g (the (fmlookup m x)))"
    by (rule sum.cong) auto
  have "(\<Sum>x \<in> fmdom' (fmupd k v m). g (the (fmlookup (fmupd k v m) x))) =
        (\<Sum>x \<in> insert k (fmdom' m - {k}). g (the (fmlookup (fmupd k v m) x)))"
    by simp
  also have "\<dots> = g v + (\<Sum>x \<in> fmdom' m - {k}. g (the (fmlookup (fmupd k v m) x)))"
    using fin by (subst sum.insert) auto
  also have "\<dots> = g v + (\<Sum>x \<in> fmdom' m - {k}. g (the (fmlookup m x)))"
    by (simp only: rest)
  finally have upd: "(\<Sum>x \<in> fmdom' (fmupd k v m). g (the (fmlookup (fmupd k v m) x))) =
      g v + (\<Sum>x \<in> fmdom' m - {k}. g (the (fmlookup m x)))" .
  show ?thesis
  proof (cases "fmlookup m k")
    case None
    then have "k \<notin> fmdom' m" by (simp add: fmdom'_notI)
    then have "fmdom' m - {k} = fmdom' m" by auto
    with upd None show ?thesis by simp
  next
    case (Some old)
    then have "k \<in> fmdom' m" by (simp add: fmdom'I)
    with fin have "(\<Sum>x \<in> fmdom' m. g (the (fmlookup m x))) =
        g (the (fmlookup m k)) + (\<Sum>x \<in> fmdom' m - {k}. g (the (fmlookup m x)))"
      by (rule sum.remove)
    with upd Some show ?thesis by simp
  qed
qed

lemma activeWeight_sum:
  "activeWeight s fid =
   (\<Sum>k \<in> fmdom' (PrintJobs s). sint (contribution fid (the (fmlookup (PrintJobs s) k))))"
proof -
  let ?D = "fmdom' (PrintJobs s)"
  let ?P = "\<lambda>k. FilamentID (the (fmlookup (PrintJobs s) k)) = fid \<and>
                 active (the (fmlookup (PrintJobs s) k))"
  have fin: "finite ?D" by (simp add: fmdom'_alt_def)
  have A: "fset (active_jobs_on s fid) = {k \<in> ?D. ?P k}"
    by (auto simp: active_jobs_on_def fmlookup_dom_iff fmdom'_alt_def split: option.splits)
  have "activeWeight s fid =
      (\<Sum>k \<in> {k \<in> ?D. ?P k}. sint (PrintWeightInGrams (the (fmlookup (PrintJobs s) k))))"
    by (simp add: activeWeight_def A)
  also have "\<dots> = (\<Sum>k \<in> ?D. if ?P k
      then sint (PrintWeightInGrams (the (fmlookup (PrintJobs s) k))) else 0)"
    using fin by (simp add: sum.inter_filter)
  also have "\<dots> = (\<Sum>k \<in> ?D. sint (contribution fid (the (fmlookup (PrintJobs s) k))))"
    by (rule sum.cong) (simp_all add: contribution_def)
  finally show ?thesis .
qed

lemma activeWeight_fmupd:
  assumes "PrintJobs s' = fmupd i j (PrintJobs s)"
  shows "activeWeight s' fid =
         activeWeight s fid -
         (case fmlookup (PrintJobs s) i of None \<Rightarrow> 0 | Some old \<Rightarrow> sint (contribution fid old)) +
         sint (contribution fid j)"
  unfolding activeWeight_sum assms
  by (rule sum_fmupd [of "\<lambda>j. sint (contribution fid j)"])

lemma activeWeight_same_jobs:
  "PrintJobs s' = PrintJobs s \<Longrightarrow> activeWeight s' fid = activeWeight s fid"
  by (simp add: activeWeight_sum)

lemma contribution_nonneg:
  "0 \<le>s PrintWeightInGrams j \<Longrightarrow> 0 \<le> sint (contribution fid j)"
  by (simp add: contribution_def word_sle_eq)

lemma activeWeight_nonneg:
  assumes "nonnegJobs s"
  shows "0 \<le> activeWeight s fid"
  unfolding activeWeight_sum
proof (rule sum_nonneg)
  fix k assume "k \<in> fmdom' (PrintJobs s)"
  with assms have "0 \<le>s PrintWeightInGrams (the (fmlookup (PrintJobs s) k))"
    by (simp add: nonnegJobs_def)
  then show "0 \<le> sint (contribution fid (the (fmlookup (PrintJobs s) k)))"
    by (rule contribution_nonneg)
qed

lemma weightUsed_of_activeWeight:
  "weightUsed s fid = word_of_int (activeWeight s fid)"
  by (simp add: weightUsed_sum activeWeight_sum fmdom'_alt_def)

lemma I2_lookup:
  assumes "I2 s" and "fmlookup (PrintJobs s) k = Some j"
  shows "FilamentID j \<in> fmdom' (Filaments s)"
proof -
  from assms(2) have "k \<in> fmdom' (PrintJobs s)" by (rule fmdom'I)
  with assms(1) have "FilamentID (the (fmlookup (PrintJobs s) k)) |\<in>| fmdom (Filaments s)"
    by (simp add: I2_def)
  with assms(2) show ?thesis by (simp add: fmdom'_alt_def)
qed

lemma activeWeight_unused:
  assumes "I2 s" and "fid \<notin> fmdom' (Filaments s)"
  shows "activeWeight s fid = 0"
  unfolding activeWeight_sum
proof (rule sum.neutral, rule ballI)
  fix k assume "k \<in> fmdom' (PrintJobs s)"
  then obtain j where j: "fmlookup (PrintJobs s) k = Some j"
    by (auto simp: fmdom'_alt_def fmlookup_dom_iff)
  from I2_lookup [OF assms(1) j] assms(2) have "FilamentID j \<noteq> fid" by auto
  with j show "sint (contribution fid (the (fmlookup (PrintJobs s) k))) = 0"
    by (simp add: contribution_def)
qed

lemma check_passed:
  assumes "nonnegJobs s" and "fmlookup (Filaments s) fid = Some fl"
    and "activeWeight s fid \<le> sint (RemainingWeightInGrams fl)"
    and "CheckFilamentAvailability s fid w = None"
  shows "activeWeight s fid + sint w \<le> sint (RemainingWeightInGrams fl)"
proof -
  let ?A = "activeWeight s fid" and ?R = "RemainingWeightInGrams fl"
  have A0: "0 \<le> ?A" using assms(1) by (rule activeWeight_nonneg)
  have used: "sint (weightUsed s fid) = ?A"
    unfolding weightUsed_of_activeWeight
    using A0 assms(3) sint_bounds(2) [of ?R] by (intro sint_of_int_in_range) simp_all
  have "sint (?R - weightUsed s fid) = sint ?R - sint (weightUsed s fid)"
    using A0 assms(3) sint_bounds [of ?R] used by (intro sint_sub_in_range) simp_all
  with used have diff: "sint (?R - weightUsed s fid) = sint ?R - ?A" by simp
  from assms(2,4) have "\<not> ?R - weightUsed s fid <s w"
    by (simp add: CheckFilamentAvailability_def Let_def split: if_splits)
  with diff show ?thesis by (simp add: word_sless_alt)
qed


lemma I4_lookup:
  assumes "I4 s" and "fmlookup (Filaments s) k = Some fl"
  shows "activeWeight s k \<le> sint (RemainingWeightInGrams fl)"
proof -
  from assms(2) have "k \<in> fmdom' (Filaments s)" by (rule fmdom'I)
  with assms show ?thesis by (auto simp: I4_def)
qed

lemma I4_I:
  assumes "\<And>k fl. fmlookup (Filaments s) k = Some fl \<Longrightarrow>
             activeWeight s k \<le> sint (RemainingWeightInGrams fl)"
  shows "I4 s"
  unfolding I4_def
proof
  fix k assume "k \<in> fmdom' (Filaments s)"
  then obtain fl where "fmlookup (Filaments s) k = Some fl"
    by (auto simp: fmdom'_alt_def fmlookup_dom_iff)
  with assms [OF this] show
    "activeWeight s k \<le> sint (RemainingWeightInGrams (the (fmlookup (Filaments s) k)))"
    by simp
qed

lemma I2_I:
  assumes "\<And>k j. fmlookup (PrintJobs s) k = Some j \<Longrightarrow> FilamentID j \<in> fmdom' (Filaments s)"
  shows "I2 s"
  unfolding I2_def
proof
  fix k assume "k \<in> fmdom' (PrintJobs s)"
  then obtain j where "fmlookup (PrintJobs s) k = Some j"
    by (auto simp: fmdom'_alt_def fmlookup_dom_iff)
  with assms [OF this] show
    "FilamentID (the (fmlookup (PrintJobs s) k)) |\<in>| fmdom (Filaments s)"
    by (simp add: fmdom'_alt_def)
qed

lemma budget_same:
  assumes "nonnegJobs s" and "I2 s" and "I4 s"
    and "Filaments s' = Filaments s" and "PrintJobs s' = PrintJobs s"
  shows "nonnegJobs s' \<and> I2 s' \<and> I4 s'"
  using assms activeWeight_same_jobs [OF assms(5)]
  by (simp add: nonnegJobs_def I2_def I4_def)

lemma budget_new_filament:
  assumes "nonnegJobs s" and "I2 s" and "I4 s"
    and "PrintJobs s' = PrintJobs s" and "Filaments s' = fmupd i q (Filaments s)"
    and "i \<notin> fmdom' (Filaments s)" and "0 \<le>s RemainingWeightInGrams q"
  shows "nonnegJobs s' \<and> I2 s' \<and> I4 s'"
proof (intro conjI)
  show "nonnegJobs s'" using assms(1,4) by (simp add: nonnegJobs_def)
  show "I2 s'"
  proof (rule I2_I)
    fix k j assume "fmlookup (PrintJobs s') k = Some j"
    with assms(4) have "fmlookup (PrintJobs s) k = Some j" by simp
    from I2_lookup [OF assms(2) this] show "FilamentID j \<in> fmdom' (Filaments s')"
      by (simp add: assms(5))
  qed
  show "I4 s'"
  proof (rule I4_I)
    fix k fl assume l: "fmlookup (Filaments s') k = Some fl"
    have same: "activeWeight s' k = activeWeight s k"
      using assms(4) by (rule activeWeight_same_jobs)
    show "activeWeight s' k \<le> sint (RemainingWeightInGrams fl)"
    proof (cases "k = i")
      case True
      with l assms(5) have "fl = q" by simp
      moreover from True assms(2,6) have "activeWeight s k = 0"
        by (simp add: activeWeight_unused)
      ultimately show ?thesis using same assms(7) by (simp add: word_sle_eq)
    next
      case False
      with l assms(5) have "fmlookup (Filaments s) k = Some fl" by simp
      from I4_lookup [OF assms(3) this] same show ?thesis by simp
    qed
  qed
qed

lemma old_contribution_nonneg:
  assumes "nonnegJobs s"
  shows "0 \<le> (case fmlookup (PrintJobs s) i of None \<Rightarrow> 0
               | Some old \<Rightarrow> sint (contribution fid old))"
proof (cases "fmlookup (PrintJobs s) i")
  case None
  then show ?thesis by simp
next
  case (Some old)
  from nonnegJobs_lookup [OF assms Some] have "0 \<le> sint (contribution fid old)"
    by (rule contribution_nonneg)
  with Some show ?thesis by simp
qed

lemma budget_new_job:
  assumes "nonnegJobs s" and "I2 s" and "I4 s"
    and "Filaments s' = Filaments s" and "PrintJobs s' = fmupd i j (PrintJobs s)"
    and "0 \<le>s PrintWeightInGrams j"
    and "fmlookup (Filaments s) (FilamentID j) = Some fl"
    and "activeWeight s (FilamentID j) + sint (PrintWeightInGrams j) \<le>
           sint (RemainingWeightInGrams fl)"
  shows "nonnegJobs s' \<and> I2 s' \<and> I4 s'"
proof (intro conjI)
  show "nonnegJobs s'" using assms(1,6,5) by (rule nonnegJobs_fmupd)
  show "I2 s'"
  proof (rule I2_I)
    fix k j' assume l: "fmlookup (PrintJobs s') k = Some j'"
    show "FilamentID j' \<in> fmdom' (Filaments s')"
    proof (cases "k = i")
      case True
      with l assms(5) have "j' = j" by simp
      with assms(7) show ?thesis by (simp add: assms(4) fmdom'I)
    next
      case False
      with l assms(5) have "fmlookup (PrintJobs s) k = Some j'" by simp
      from I2_lookup [OF assms(2) this] show ?thesis by (simp add: assms(4))
    qed
  qed
  show "I4 s'"
  proof (rule I4_I)
    fix k fl' assume "fmlookup (Filaments s') k = Some fl'"
    with assms(4) have l: "fmlookup (Filaments s) k = Some fl'" by simp
    note upd = activeWeight_fmupd [OF assms(5), of k]
    note old = old_contribution_nonneg [OF assms(1), where i = i and fid = k]
    show "activeWeight s' k \<le> sint (RemainingWeightInGrams fl')"
    proof (cases "k = FilamentID j")
      case True
      with l assms(7) have "fl' = fl" by simp
      moreover have "sint (contribution k j) \<le> sint (PrintWeightInGrams j)"
        using assms(6) by (simp add: contribution_def word_sle_eq)
      ultimately show ?thesis using upd old assms(8) True by simp
    next
      case False
      then have "contribution k j = 0" by (auto simp: contribution_def)
      with upd old I4_lookup [OF assms(3) l] show ?thesis by simp
    qed
  qed
qed


lemma allowed_cases:
  assumes "ValidatePrintJobStatusTransition c n = None"
  shows "(c = Queued \<or> c = Running) \<and> n \<noteq> Queued \<and> (n = Running \<or> n = Done \<or> n = Canceled)"
  using assms
  by (auto simp: ValidatePrintJobStatusTransition_def status_defs split: if_splits)

lemma budget_update:
  assumes "nonnegJobs s" and "I2 s" and "I4 s"
    and "fmlookup (PrintJobs s) i = Some j"
    and "ValidatePrintJobStatusTransition (PrintJob.Status j) st = None"
    and "PrintJobs s' = fmupd i (j\<lparr>PrintJob.Status := st, UpdatedAt := t\<rparr>) (PrintJobs s)"
    and "Filaments s' =
          (if st = Done then fmupd (FilamentID j) (finishFilament s j) (Filaments s)
           else Filaments s)"
  shows "nonnegJobs s' \<and> I2 s' \<and> I4 s'"
proof (intro conjI)
  let ?j2 = "j\<lparr>PrintJob.Status := st, UpdatedAt := t\<rparr>"
  note st = allowed_cases [OF assms(5)]
  have w: "0 \<le>s PrintWeightInGrams j"
    using assms(1,4) by (rule nonnegJobs_lookup)
  have w0: "0 \<le> sint (PrintWeightInGrams j)"
    using w by (simp add: word_sle_eq)
  have grows: "x \<in> fmdom' (Filaments s')" if "x \<in> fmdom' (Filaments s)" for x
    using that by (simp add: assms(7))
  from I2_lookup [OF assms(2,4)] obtain fl where fl: "fmlookup (Filaments s) (FilamentID j) = Some fl"
    by (auto simp: fmdom'_alt_def fmlookup_dom_iff)
  have old: "sint (contribution k j) = (if FilamentID j = k then sint (PrintWeightInGrams j) else 0)"
    for k
    using st by (auto simp: contribution_def active_def)
  have new: "sint (contribution k ?j2) =
      (if FilamentID j = k \<and> st = Running then sint (PrintWeightInGrams j) else 0)" for k
    using st by (auto simp: contribution_def active_def status_defs)
  have upd: "activeWeight s' k =
      activeWeight s k - sint (contribution k j) + sint (contribution k ?j2)" for k
    using activeWeight_fmupd [OF assms(6), of k] assms(4) by simp
  have "0 \<le>s PrintWeightInGrams ?j2" using w by simp
  with assms(1) show "nonnegJobs s'" using assms(6) by (rule nonnegJobs_fmupd)
  show "I2 s'"
  proof (rule I2_I)
    fix k j' assume l: "fmlookup (PrintJobs s') k = Some j'"
    show "FilamentID j' \<in> fmdom' (Filaments s')"
    proof (cases "k = i")
      case True
      with l assms(6) have "FilamentID j' = FilamentID j" by auto
      with I2_lookup [OF assms(2,4)] show ?thesis by (simp add: grows)
    next
      case False
      with l assms(6) have "fmlookup (PrintJobs s) k = Some j'" by simp
      from I2_lookup [OF assms(2) this] show ?thesis by (rule grows)
    qed
  qed
  show "I4 s'"
  proof (rule I4_I)
    fix k fl' assume l: "fmlookup (Filaments s') k = Some fl'"
    show "activeWeight s' k \<le> sint (RemainingWeightInGrams fl')"
    proof (cases "st = Done \<and> k = FilamentID j")
      case True
      with l assms(7) have fl': "fl' = finishFilament s j" by simp
      have A: "activeWeight s k \<le> sint (RemainingWeightInGrams fl)"
        using I4_lookup [OF assms(3) fl] True by simp
      have A0: "0 \<le> activeWeight s k" using assms(1) by (rule activeWeight_nonneg)
      have "sint (RemainingWeightInGrams fl - PrintWeightInGrams j) =
            sint (RemainingWeightInGrams fl) - sint (PrintWeightInGrams j)"
        using A A0 w0 sint_bounds [of "RemainingWeightInGrams fl"]
          sint_bounds [of "PrintWeightInGrams j"]
        by (intro sint_sub_in_range) simp_all
      with finishFilament_remaining(2) [OF fl] fl'
      have R: "sint (RemainingWeightInGrams fl') =
          max 0 (sint (RemainingWeightInGrams fl) - sint (PrintWeightInGrams j))"
        by simp
      have "activeWeight s' k = activeWeight s k - sint (PrintWeightInGrams j)"
        using upd [of k] old [of k] new [of k] True by (simp add: status_defs)
      with A R show ?thesis by simp
    next
      case False
      then have "fmlookup (Filaments s) k = Some fl'"
        using l assms(7) by (auto split: if_splits)
      from I4_lookup [OF assms(3) this]
      have A: "activeWeight s k \<le> sint (RemainingWeightInGrams fl')" .
      have "activeWeight s' k \<le> activeWeight s k"
        using upd [of k] old [of k] new [of k] w0 False st by auto
      with A show ?thesis by simp
    qed
  qed
qed


lemma Apply_preserves_budget:
  assumes "nonnegJobs (store f)" and "I2 (store f)" and "I4 (store f)"
    and "nonnegPayload f log" and "freshFilament f log"
  shows "nonnegJobs (store (snd (Apply clk f log))) \<and> I2 (store (snd (Apply clk f log))) \<and>
         I4 (store (snd (Apply clk f log)))"
proof (cases rule: Apply_cases [of clk f log])
  case unchanged
  with assms show ?thesis by simp
next
  case (printer cmd p)
  show ?thesis
    by (rule budget_same [OF assms(1-3)]) (simp_all add: printer(4))
next
  case (filament cmd fl)
  let ?q = "newFilament (store f) fl"
  from filament have st: "storedFilament f log = Some ?q"
    by (simp add: storedFilament_CreateFilament)
  with assms(4) have r: "0 \<le>s RemainingWeightInGrams ?q"
    by (simp add: nonnegPayload_def)
  from st assms(5) have fresh: "Filament.ID ?q \<notin> fmdom' (Filaments (store f))"
    by (simp add: freshFilament_def fmdom'_alt_def)
  show ?thesis
    by (rule budget_new_filament [OF assms(1-3) _ _ fresh r]) (simp_all add: filament(4))
next
  case (job cmd pj)
  let ?j = "newPrintJob clk (store f) pj"
  from job have "requestedPrintJob log = Some pj"
    by (simp add: requestedPrintJob_CreatePrintJob)
  with assms(4) have w: "0 \<le>s PrintWeightInGrams ?j"
    by (simp add: nonnegPayload_def newPrintJob_def)
  from job(5) obtain fl where "fmlookup (Filaments (store f)) (FilamentID pj) = Some fl"
    by auto
  then have fl: "fmlookup (Filaments (store f)) (FilamentID ?j) = Some fl"
    by (simp add: newPrintJob_def)
  have chk: "CheckFilamentAvailability (store f) (FilamentID ?j) (PrintWeightInGrams ?j) = None"
    using job(6) by (simp add: newPrintJob_def)
  note fits = check_passed [OF assms(1) fl I4_lookup [OF assms(3) fl] chk]
  show ?thesis
    by (rule budget_new_job [OF assms(1-3) _ _ w fl fits]) (simp_all add: job(7))
next
  case (update cmd j)
  show ?thesis
    by (rule budget_update [OF assms(1-3) update(3,4)]) (simp_all add: update(5))
qed

lemma run_preserves_budget:
  assumes "along nonnegPayload f entries" and "along freshFilament f entries"
    and "nonnegJobs (store f)" and "I2 (store f)" and "I4 (store f)"
  shows "I4 (store (run f entries))"
  using assms
proof (induction entries arbitrary: f)
  case Nil
  then show ?case by simp
next
  case (Cons entry entries)
  from Cons.prems have
    "nonnegJobs (store (snd (Apply (fst entry) f (snd entry)))) \<and>
     I2 (store (snd (Apply (fst entry) f (snd entry)))) \<and>
     I4 (store (snd (Apply (fst entry) f (snd entry))))"
    by (intro Apply_preserves_budget) simp_all
  with Cons.prems Cons.IH [of "snd (Apply (fst entry) f (snd entry))"] show ?case
    by simp
qed

lemma NewStore_budget: "I2 NewStore" "I4 NewStore"
  by (simp_all add: I2_def I4_def NewStore_def)

subsection \<open>Where the 64-bit difference is the exact one\<close>

lemma available_of_exactAvailable:
  "available s fid = word_of_int (exactAvailable s fid)"
  by (simp add: available_def exactAvailable_def activeWeight_def of_int_sum)

lemma available_exact:
  assumes "- (2 ^ 63) \<le> exactAvailable s fid" and "exactAvailable s fid < 2 ^ 63"
  shows "sint (available s fid) = exactAvailable s fid"
  unfolding available_of_exactAvailable using assms by (rule sint_of_int_in_range)

lemma overflowRun_result:
  "run NewFSM overflowRun =
     \<lparr>store = \<lparr>Printers = fmupd ''1'' (ender\<lparr>Printer.ID := ''1''\<rparr>) fmempty,
        Filaments = fmupd ''1'' ((roll maxInt maxInt)\<lparr>Filament.ID := ''1''\<rparr>) fmempty,
        PrintJobs = fmupd ''1'' ((job (- 1))\<lparr>PrintJob.ID := ''1'', PrintJob.Status := Queued,
                                            CreatedAt := 7, UpdatedAt := 8\<rparr>) fmempty,
        NextID = fmupd ''printjob'' 2 (fmupd ''filament'' 2 (fmupd ''printer'' 2 fmempty))\<rparr>\<rparr>"
  apply (simp add: overflowRun_def maxInt_def run_defs eval_defs sample_defs NewFSM_def NewStore_def)
  apply (rule fmap_ext)
  apply simp
  done

lemma startedRun_result:
  "run NewFSM startedRun =
     \<lparr>store = \<lparr>Printers = fmupd ''1'' (ender\<lparr>Printer.ID := ''1''\<rparr>) fmempty,
        Filaments = fmupd ''1'' ((roll maxInt maxInt)\<lparr>Filament.ID := ''1''\<rparr>) fmempty,
        PrintJobs = fmupd ''1'' ((job (- 1))\<lparr>PrintJob.ID := ''1'', PrintJob.Status := Running,
                                            CreatedAt := 7, UpdatedAt := 10\<rparr>) fmempty,
        NextID = fmupd ''printjob'' 2 (fmupd ''filament'' 2 (fmupd ''printer'' 2 fmempty))\<rparr>\<rparr>"
  apply (simp add: startedRun_def overflowRun_def maxInt_def run_defs eval_defs sample_defs
           NewFSM_def NewStore_def)
  apply (rule fmap_ext)
  apply simp
  done
section \<open>The filament budget at job creation\<close>

text \<open>
  What \<open>Apply\<close> does with a \<open>CreatePrintJob\<close> command whose payload decodes and whose
  printer and filament exist, in terms of \<open>available\<close> as Go computes it: a 64-bit
  difference, compared as a signed number.
\<close>

lemma CreatePrintJob_checks_available:
  assumes "Command.Type cmd = CreatePrintJob"
    and "AsPrintJob (Data cmd) = Some pj"
    and "fmlookup (Printers (store f)) (PrinterID pj) \<noteq> None"
    and "fmlookup (Filaments (store f)) (FilamentID pj) \<noteq> None"
  shows
    "((\<exists>r. fst (Apply clk f (Some cmd)) = Inr r) \<longleftrightarrow>
        PrintWeightInGrams pj \<le>s available (store f) (FilamentID pj)) \<and>
     (PrintWeightInGrams pj \<le>s available (store f) (FilamentID pj) \<longrightarrow>
        (\<exists>i. fst (Apply clk f (Some cmd)) =
               Inr (PrintJobResult (pj\<lparr>PrintJob.ID := i, PrintJob.Status := Queued,
                                         CreatedAt := clk 0, UpdatedAt := clk 1\<rparr>)) \<and>
             fmlookup (PrintJobs (store (snd (Apply clk f (Some cmd))))) i =
               Some (pj\<lparr>PrintJob.ID := i, PrintJob.Status := Queued,
                        CreatedAt := clk 0, UpdatedAt := clk 1\<rparr>) \<and>
             (PrintJob.ID pj \<noteq> '''' \<longrightarrow> i = PrintJob.ID pj))) \<and>
     (available (store f) (FilamentID pj) <s PrintWeightInGrams pj \<longrightarrow>
        fst (Apply clk f (Some cmd)) =
          Inl (NotEnoughFilament (PrintWeightInGrams pj) (available (store f) (FilamentID pj))) \<and>
        snd (Apply clk f (Some cmd)) = f)"
proof (cases "available (store f) (FilamentID pj) <s PrintWeightInGrams pj")
  case True
  then have "CheckFilamentAvailability (store f) (FilamentID pj) (PrintWeightInGrams pj) =
      Some (NotEnoughFilament (PrintWeightInGrams pj) (available (store f) (FilamentID pj)))"
    using assms(4) by (simp add: CheckFilamentAvailability_available)
  from applyCreatePrintJob_rejected [OF assms(2,3,4) this, of clk] True
  show ?thesis
    by (simp add: Apply_CreatePrintJob [OF assms(1)] not_sless_iff [symmetric])
next
  case False
  then have "CheckFilamentAvailability (store f) (FilamentID pj) (PrintWeightInGrams pj) = None"
    using assms(4) by (simp add: CheckFilamentAvailability_available)
  note acc = applyCreatePrintJob_accepted [OF assms(2,3,4) this, of clk]
  have ap: "Apply clk f (Some cmd) = applyCreatePrintJob clk f (Data cmd)"
    by (rule Apply_CreatePrintJob [OF assms(1)])
  let ?i = "fst (assignID (store f) ''printjob'' (PrintJob.ID pj))"
  have new: "newPrintJob clk (store f) pj =
      pj\<lparr>PrintJob.ID := ?i, PrintJob.Status := Queued, CreatedAt := clk 0, UpdatedAt := clk 1\<rparr>"
    by (simp add: newPrintJob_def)
  have given: "PrintJob.ID pj \<noteq> '''' \<Longrightarrow> ?i = PrintJob.ID pj"
    by (simp add: assignID_def)
  have "fst (Apply clk f (Some cmd)) =
               Inr (PrintJobResult (pj\<lparr>PrintJob.ID := ?i, PrintJob.Status := Queued,
                                         CreatedAt := clk 0, UpdatedAt := clk 1\<rparr>)) \<and>
             fmlookup (PrintJobs (store (snd (Apply clk f (Some cmd))))) ?i =
               Some (pj\<lparr>PrintJob.ID := ?i, PrintJob.Status := Queued,
                        CreatedAt := clk 0, UpdatedAt := clk 1\<rparr>) \<and>
             (PrintJob.ID pj \<noteq> '''' \<longrightarrow> ?i = PrintJob.ID pj)"
    using given by (simp add: ap acc new)
  then have ex: "\<exists>i. fst (Apply clk f (Some cmd)) =
               Inr (PrintJobResult (pj\<lparr>PrintJob.ID := i, PrintJob.Status := Queued,
                                         CreatedAt := clk 0, UpdatedAt := clk 1\<rparr>)) \<and>
             fmlookup (PrintJobs (store (snd (Apply clk f (Some cmd))))) i =
               Some (pj\<lparr>PrintJob.ID := i, PrintJob.Status := Queued,
                        CreatedAt := clk 0, UpdatedAt := clk 1\<rparr>) \<and>
             (PrintJob.ID pj \<noteq> '''' \<longrightarrow> i = PrintJob.ID pj)"
    by (rule exI)
  have ok: "\<exists>r. fst (Apply clk f (Some cmd)) = Inr r"
    by (simp add: ap acc)
  from False have le: "PrintWeightInGrams pj \<le>s available (store f) (FilamentID pj)"
    by (simp add: not_sless_iff)
  from ex ok le False show ?thesis by blast
qed

text \<open>
  Against C1 as stated: the difference is taken in Go's 64-bit \<open>int\<close> and wraps around.
  From the empty store, create a printer, a roll of \<open>math.MaxInt64\<close> grams and a job
  whose payload carries a print weight of -1 g (no path validates weights, so it is
  queued). Then remaining minus the active weights is 2^63, which is at least 5; the
  code computes -2^63 and rejects a job of 5 g.
\<close>

theorem CreatePrintJob_difference_wraps:
  "fmlookup (Printers (store (run NewFSM overflowRun))) (PrinterID (job 5)) =
     Some (ender\<lparr>Printer.ID := ''1''\<rparr>) \<and>
   fmlookup (Filaments (store (run NewFSM overflowRun))) (FilamentID (job 5)) =
     Some ((roll maxInt maxInt)\<lparr>Filament.ID := ''1''\<rparr>) \<and>
   sint maxInt = 2 ^ 63 - 1 \<and>
   activeWeight (store (run NewFSM overflowRun)) (FilamentID (job 5)) = - 1 \<and>
   exactAvailable (store (run NewFSM overflowRun)) (FilamentID (job 5)) = 2 ^ 63 \<and>
   sint (PrintWeightInGrams (job 5)) = 5 \<and>
   Apply (clockAt 12) (run NewFSM overflowRun) (Some (CreatePrintJobCommand (job 5))) =
     (Inl (NotEnoughFilament 5 (- (2 ^ 63))), run NewFSM overflowRun)"
  by (simp add: overflowRun_result exactAvailable_def activeWeight_def active_jobs_on_def
        active_def maxInt_def eval_defs sample_defs weightUsed_sum contribution_def)

text \<open>
  C1, amended. For a \<open>CreatePrintJob\<close> command whose payload decodes and whose printer
  and filament exist, the job is inserted if and only if available(F) is at least the
  job's print weight, where available(F) = F.remaining - (sum of the print weights of the
  jobs on F that are Queued or Running) is computed in Go's 64-bit \<open>int\<close>, wrapping
  around, and compared as a signed number. When it is smaller, \<open>Apply\<close> returns the
  error and the state is unchanged; the admitted job is stored under its own id, or
  under a freshly allocated one when it has none, in status \<open>Queued\<close>. Whenever the
  same difference taken over the integers lies between -2^63 and 2^63 - 1, the computed
  value is that integer, and the job is inserted if and only if the integer difference is
  at least the print weight.
\<close>

theorem CreatePrintJob_admitted_iff_available:
  assumes "Command.Type cmd = CreatePrintJob"
    and "AsPrintJob (Data cmd) = Some pj"
    and "fmlookup (Printers (store f)) (PrinterID pj) \<noteq> None"
    and "fmlookup (Filaments (store f)) (FilamentID pj) \<noteq> None"
  shows
    "((\<exists>r. fst (Apply clk f (Some cmd)) = Inr r) \<longleftrightarrow>
        PrintWeightInGrams pj \<le>s available (store f) (FilamentID pj)) \<and>
     (PrintWeightInGrams pj \<le>s available (store f) (FilamentID pj) \<longrightarrow>
        (\<exists>i. fst (Apply clk f (Some cmd)) =
               Inr (PrintJobResult (pj\<lparr>PrintJob.ID := i, PrintJob.Status := Queued,
                                         CreatedAt := clk 0, UpdatedAt := clk 1\<rparr>)) \<and>
             fmlookup (PrintJobs (store (snd (Apply clk f (Some cmd))))) i =
               Some (pj\<lparr>PrintJob.ID := i, PrintJob.Status := Queued,
                        CreatedAt := clk 0, UpdatedAt := clk 1\<rparr>) \<and>
             (PrintJob.ID pj \<noteq> '''' \<longrightarrow> i = PrintJob.ID pj))) \<and>
     (available (store f) (FilamentID pj) <s PrintWeightInGrams pj \<longrightarrow>
        fst (Apply clk f (Some cmd)) =
          Inl (NotEnoughFilament (PrintWeightInGrams pj) (available (store f) (FilamentID pj))) \<and>
        snd (Apply clk f (Some cmd)) = f) \<and>
     (- (2 ^ 63) \<le> exactAvailable (store f) (FilamentID pj) \<and>
      exactAvailable (store f) (FilamentID pj) < 2 ^ 63 \<longrightarrow>
        sint (available (store f) (FilamentID pj)) = exactAvailable (store f) (FilamentID pj) \<and>
        ((\<exists>r. fst (Apply clk f (Some cmd)) = Inr r) \<longleftrightarrow>
           sint (PrintWeightInGrams pj) \<le> exactAvailable (store f) (FilamentID pj)))"
proof -
  note checked = CreatePrintJob_checks_available [OF assms, of clk]
  have exact: "sint (available (store f) (FilamentID pj)) = exactAvailable (store f) (FilamentID pj) \<and>
        ((\<exists>r. fst (Apply clk f (Some cmd)) = Inr r) \<longleftrightarrow>
           sint (PrintWeightInGrams pj) \<le> exactAvailable (store f) (FilamentID pj))"
    if "- (2 ^ 63) \<le> exactAvailable (store f) (FilamentID pj) \<and>
        exactAvailable (store f) (FilamentID pj) < 2 ^ 63"
  proof -
    from that have "sint (available (store f) (FilamentID pj)) = exactAvailable (store f) (FilamentID pj)"
      by (intro available_exact) simp_all
    moreover from checked have "(\<exists>r. fst (Apply clk f (Some cmd)) = Inr r) \<longleftrightarrow>
        sint (PrintWeightInGrams pj) \<le> sint (available (store f) (FilamentID pj))"
      by (simp only: word_sle_eq)
    ultimately show ?thesis by (simp only:)
  qed
  from checked exact show ?thesis by blast
qed

theorem CreatePrintJob_admitted_iff_available_witness:
  "exactAvailable (store (withJob Queued 60)) ''1'' = 40 \<and>
   available (store (withJob Queued 60)) ''1'' = 40 \<and>
   fst (Apply (clockAt 30) (withJob Queued 60) (Some (CreatePrintJobCommand (job 50)))) =
     Inl (NotEnoughFilament 50 40) \<and>
   (\<exists>r. fst (Apply (clockAt 30) (withJob Queued 60) (Some (CreatePrintJobCommand (job 40)))) =
     Inr r)"
proof -
  have t: "Command.Type (CreatePrintJobCommand (job w)) = CreatePrintJob" for w
    by (simp add: CreatePrintJobCommand_def)
  have d: "AsPrintJob (Data (CreatePrintJobCommand (job w))) = Some (job w)" for w
    by (simp add: CreatePrintJobCommand_def)
  have p: "fmlookup (Printers (store (withJob Queued 60))) (PrinterID (job w)) \<noteq> None" for w
    by (simp add: sample_defs)
  have fl: "fmlookup (Filaments (store (withJob Queued 60))) (FilamentID (job w)) \<noteq> None" for w
    by (simp add: sample_defs)
  have av: "available (store (withJob Queued 60)) ''1'' = 40"
    by (simp add: available_def active_jobs_on_def active_def sample_defs)
  have ex: "exactAvailable (store (withJob Queued 60)) ''1'' = 40"
    by (simp add: exactAvailable_def activeWeight_def active_jobs_on_def active_def sample_defs)
  have fid: "FilamentID (job w) = ''1''" "PrintWeightInGrams (job w) = w" for w
    by (simp_all add: job_def)
  from CreatePrintJob_admitted_iff_available [OF t [of 50] d [of 50] p [of 50] fl [of 50], of "clockAt 30"]
       CreatePrintJob_admitted_iff_available [OF t [of 40] d [of 40] p [of 40] fl [of 40], of "clockAt 30"]
       av ex
  show ?thesis
    by (simp add: fid word_sless_alt word_sle_eq)
qed

section \<open>The life cycle of a print job\<close>

text \<open>
  C2. For an \<open>UpdatePrintJob\<close> command on an existing job, the status change succeeds
  exactly when (current, proposed) is one of (Queued, Running), (Queued, Canceled),
  (Running, Done), (Running, Canceled). On success the job is stored with the proposed
  status; every other pair is answered with an error and leaves the state as it was. In
  particular a job in \<open>Done\<close> or \<open>Canceled\<close> is never changed by such a command.
\<close>

theorem UpdatePrintJob_transitions:
  assumes "Command.Type cmd = UpdatePrintJob"
    and "fmlookup (PrintJobs (store f)) (Command.ID cmd) = Some j"
  shows
    "((\<exists>r. fst (Apply clk f (Some cmd)) = Inr r) \<longleftrightarrow>
        (PrintJob.Status j, Command.Status cmd) \<in> allowedTransitions) \<and>
     ((PrintJob.Status j, Command.Status cmd) \<in> allowedTransitions \<longrightarrow>
        fst (Apply clk f (Some cmd)) =
          Inr (PrintJobResult (j\<lparr>PrintJob.Status := Command.Status cmd, UpdatedAt := clk 0\<rparr>)) \<and>
        fmlookup (PrintJobs (store (snd (Apply clk f (Some cmd))))) (Command.ID cmd) =
          Some (j\<lparr>PrintJob.Status := Command.Status cmd, UpdatedAt := clk 0\<rparr>)) \<and>
     ((PrintJob.Status j, Command.Status cmd) \<notin> allowedTransitions \<longrightarrow>
        (\<exists>e. fst (Apply clk f (Some cmd)) = Inl e) \<and> snd (Apply clk f (Some cmd)) = f) \<and>
     (PrintJob.Status j = Done \<or> PrintJob.Status j = Canceled \<longrightarrow>
        fst (Apply clk f (Some cmd)) = Inl TerminalTransitionError \<and>
        snd (Apply clk f (Some cmd)) = f)"
proof (cases "ValidatePrintJobStatusTransition (PrintJob.Status j) (Command.Status cmd)")
  case None
  then have ok: "(PrintJob.Status j, Command.Status cmd) \<in> allowedTransitions"
    by (simp add: Validate_allowed)
  have not_terminal: "\<not> (PrintJob.Status j = Done \<or> PrintJob.Status j = Canceled)"
    using None Validate_terminal [of "PrintJob.Status j" "Command.Status cmd"] by auto
  show ?thesis
    using ok not_terminal
    by (simp add: Apply_UpdatePrintJob [OF assms(1)] applyUpdatePrintJob_accepted [OF assms(2) None])
next
  case (Some e)
  then have bad: "(PrintJob.Status j, Command.Status cmd) \<notin> allowedTransitions"
    using Validate_allowed [of "PrintJob.Status j" "Command.Status cmd"] by simp
  have terminal: "PrintJob.Status j = Done \<or> PrintJob.Status j = Canceled \<Longrightarrow>
      e = TerminalTransitionError"
    using Some Validate_terminal [of "PrintJob.Status j" "Command.Status cmd"] by auto
  show ?thesis
    using bad terminal
    by (auto simp: Apply_UpdatePrintJob [OF assms(1)] applyUpdatePrintJob_rejected [OF assms(2) Some])
qed

theorem UpdatePrintJob_transitions_witness:
  "fst (Apply (clockAt 20) (withJob Queued 60) (Some (UpdatePrintJobStatusCommand ''1'' Running))) =
     Inr (PrintJobResult ((job 60)\<lparr>PrintJob.ID := ''1'', PrintJob.Status := Running,
                                  CreatedAt := 7, UpdatedAt := 20\<rparr>)) \<and>
   fst (Apply (clockAt 20) (withJob Done 60) (Some (UpdatePrintJobStatusCommand ''1'' Canceled))) =
     Inl TerminalTransitionError \<and>
   snd (Apply (clockAt 20) (withJob Done 60) (Some (UpdatePrintJobStatusCommand ''1'' Canceled))) =
     withJob Done 60"
proof -
  have t: "Command.Type (UpdatePrintJobStatusCommand i st) = UpdatePrintJob" for i st
    by (simp add: UpdatePrintJobStatusCommand_def)
  have j: "fmlookup (PrintJobs (store (withJob st w))) (Command.ID (UpdatePrintJobStatusCommand ''1'' st')) =
      Some ((job w)\<lparr>PrintJob.ID := ''1'', PrintJob.Status := st, CreatedAt := 7, UpdatedAt := 8\<rparr>)"
    for st w st'
    by (simp add: UpdatePrintJobStatusCommand_def withJob_def)
  have a: "(Queued, Running) \<in> allowedTransitions"
    by (simp add: allowedTransitions_def)
  from UpdatePrintJob_transitions [OF t j, of "clockAt 20" Queued 60 Running]
       UpdatePrintJob_transitions [OF t j, of "clockAt 20" Done 60 Canceled] a
  show ?thesis
    by (simp add: UpdatePrintJobStatusCommand_def clockAt_def)
qed

section \<open>Time stamps come from the local clock\<close>

text \<open>
  C3 asks that \<open>Apply\<close> be a function of the store and the command alone. The same
  \<open>CreatePrintJob\<close> entry applied to the same state on two hosts whose clocks read 7 and 9
  gives two different print jobs and two different states: \<open>created_at\<close> and
  \<open>updated_at\<close> are what \<open>time.Now()\<close> returned on each host.
\<close>

theorem Apply_reads_the_local_clock:
  "fst (Apply (clockAt 7) seeded (Some (CreatePrintJobCommand (job 60)))) =
     Inr (PrintJobResult ((job 60)\<lparr>PrintJob.ID := ''1'', PrintJob.Status := Queued,
                                  CreatedAt := 7, UpdatedAt := 8\<rparr>)) \<and>
   fst (Apply (clockAt 9) seeded (Some (CreatePrintJobCommand (job 60)))) =
     Inr (PrintJobResult ((job 60)\<lparr>PrintJob.ID := ''1'', PrintJob.Status := Queued,
                                  CreatedAt := 9, UpdatedAt := 10\<rparr>)) \<and>
   snd (Apply (clockAt 7) seeded (Some (CreatePrintJobCommand (job 60)))) \<noteq>
   snd (Apply (clockAt 9) seeded (Some (CreatePrintJobCommand (job 60))))"
proof -
  let ?log = "Some (CreatePrintJobCommand (job 60))"
  have r7: "fst (Apply (clockAt 7) seeded ?log) =
     Inr (PrintJobResult ((job 60)\<lparr>PrintJob.ID := ''1'', PrintJob.Status := Queued,
                                  CreatedAt := 7, UpdatedAt := 8\<rparr>))"
    by (simp add: eval_defs sample_defs)
  have r9: "fst (Apply (clockAt 9) seeded ?log) =
     Inr (PrintJobResult ((job 60)\<lparr>PrintJob.ID := ''1'', PrintJob.Status := Queued,
                                  CreatedAt := 9, UpdatedAt := 10\<rparr>))"
    by (simp add: eval_defs sample_defs)
  have s7: "map_option CreatedAt (fmlookup (PrintJobs (store (snd (Apply (clockAt 7) seeded ?log)))) ''1'') = Some 7"
    by (simp add: eval_defs sample_defs)
  have s9: "map_option CreatedAt (fmlookup (PrintJobs (store (snd (Apply (clockAt 9) seeded ?log)))) ''1'') = Some 9"
    by (simp add: eval_defs sample_defs)
  have "snd (Apply (clockAt 7) seeded ?log) \<noteq> snd (Apply (clockAt 9) seeded ?log)"
  proof
    assume "snd (Apply (clockAt 7) seeded ?log) = snd (Apply (clockAt 9) seeded ?log)"
    with s7 s9 show False by simp
  qed
  with r7 r9 show ?thesis by simp
qed

section \<open>The filament budget over a run\<close>

text \<open>
  Against C4 as stated: \<open>CreateFilament\<close> assigns into the map whether or not the id
  is in use. After a 60 g job was queued on roll 1, a \<open>CreateFilament\<close> that carries
  id 1 and a total of 10 g replaces the roll; the active jobs on it then weigh 60 g
  against 10 g remaining.
\<close>

theorem CreateFilament_breaks_budget:
  "fmlookup (Filaments (store (run NewFSM overwriteRun))) ''1'' =
     Some ((roll 10 10)\<lparr>Filament.ID := ''1''\<rparr>) \<and>
   activeWeight (store (run NewFSM overwriteRun)) ''1'' = 60 \<and>
   \<not> I4 (store (run NewFSM overwriteRun))"
  by (simp add: run_defs eval_defs sample_defs NewFSM_def NewStore_def
        I4_def activeWeight_def active_jobs_on_def)

text \<open>
  C4, amended. Take a sequence of commands applied from the initial empty store in which
  no \<open>CreateFilament\<close> stores its filament under an id that is already in use, every
  \<open>CreateFilament\<close> stores a remaining weight of at least 0, and every \<open>CreatePrintJob\<close>
  payload has a print weight of at least 0. Then after every applied command, for every
  filament F in the store, the sum of the print weights of the jobs on F that are Queued
  or Running (a sum of integers, without wrap-around) is at most F's remaining weight.
\<close>

theorem filament_budget_kept:
  assumes "along nonnegPayload NewFSM entries" and "along freshFilament NewFSM entries"
    and "fmlookup (Filaments (store (run NewFSM (take n entries)))) k = Some fl"
  shows "(\<Sum>i \<in> fset (active_jobs_on (store (run NewFSM (take n entries))) k).
            sint (PrintWeightInGrams
              (the (fmlookup (PrintJobs (store (run NewFSM (take n entries)))) i)))) \<le>
         sint (RemainingWeightInGrams fl)"
proof -
  have "I4 (store (run NewFSM (take n entries)))"
    using run_preserves_budget [OF along_take [OF assms(1), of n] along_take [OF assms(2), of n]]
      NewStore_bounds(2) NewStore_budget by (simp add: NewFSM_def)
  from I4_lookup [OF this assms(3)] show ?thesis
    by (simp add: activeWeight_def)
qed

theorem filament_budget_kept_witness:
  "along nonnegPayload NewFSM sampleRun \<and> along freshFilament NewFSM sampleRun \<and>
   fmlookup (Filaments (store (run NewFSM (take 3 sampleRun)))) ''1'' =
     Some ((roll 100 100)\<lparr>Filament.ID := ''1''\<rparr>) \<and>
   activeWeight (store (run NewFSM (take 3 sampleRun))) ''1'' = 60 \<and>
   (\<Sum>i \<in> fset (active_jobs_on (store (run NewFSM (take 3 sampleRun))) ''1'').
      sint (PrintWeightInGrams
        (the (fmlookup (PrintJobs (store (run NewFSM (take 3 sampleRun)))) i)))) \<le>
     sint (RemainingWeightInGrams ((roll 100 100)\<lparr>Filament.ID := ''1''\<rparr>))"
proof -
  have l: "fmlookup (Filaments (store (run NewFSM (take 3 sampleRun)))) ''1'' =
     Some ((roll 100 100)\<lparr>Filament.ID := ''1''\<rparr>)"
    by (simp add: run_defs eval_defs sample_defs NewFSM_def NewStore_def)
  have a: "activeWeight (store (run NewFSM (take 3 sampleRun))) ''1'' = 60"
    by (simp add: run_defs eval_defs sample_defs NewFSM_def NewStore_def
          activeWeight_def active_jobs_on_def)
  from filament_budget_kept [OF sampleRun_along(1) sampleRun_along(3) l] l a sampleRun_along
  show ?thesis by simp
qed

section \<open>Snapshot and restore\<close>

text \<open>
  What the state machine itself does between a snapshot and a restore. \<open>Snapshot\<close>
  copies the four maps entry by entry, \<open>Persist\<close> hands the copy to \<open>json.Marshal\<close>
  and, on a sink that had nothing written, leaves exactly that encoding in it, and
  \<open>Restore\<close> on a new state machine installs whatever \<open>json.Unmarshal\<close> makes of the
  stream. Whether the two stores are equal is then a matter of the encoding alone, which
  is \<open>encoding/json\<close>'s and is not interpreted here.
\<close>

lemma Persist_then_Restore:
  assumes "Persist marshal (Snapshot f) sink = (None, sink')"
    and "written sink = []"
  shows "\<exists>data. marshal (store f) = Some data \<and> written sink' = [data] \<and>
           Restore unmarshal NewFSM (Inr data) =
             (case unmarshal data of
                None \<Rightarrow> (Some SnapshotUnmarshalError, NewFSM)
              | Some s \<Rightarrow> (None, NewFSM\<lparr>store := s\<rparr>))"
proof (cases "marshal (store f)")
  case None
  with assms(1) show ?thesis
    by (simp add: Persist_def Snapshot_store)
next
  case (Some data)
  with assms have "written sink' = [data]"
    by (auto simp: Persist_def Snapshot_store Let_def split: if_splits)
  with Some show ?thesis
    by (simp add: Restore_def)
qed

section \<open>Finishing a job consumes filament\<close>

text \<open>
  Against C6 as stated: the difference is taken in Go's 64-bit \<open>int\<close> and wraps around.
  From the empty store, create a printer, a roll of \<open>math.MaxInt64\<close> grams and a job
  whose payload carries a print weight of -1 g, and start the job. When it is finished,
  remaining minus print weight is 2^63; the code computes -2^63, finds it negative and
  stores 0.
\<close>

theorem Done_difference_wraps:
  "fmlookup (PrintJobs (store (run NewFSM startedRun))) ''1'' =
     Some ((job (- 1))\<lparr>PrintJob.ID := ''1'', PrintJob.Status := Running,
                         CreatedAt := 7, UpdatedAt := 10\<rparr>) \<and>
   fmlookup (Filaments (store (run NewFSM startedRun))) (FilamentID (job (- 1))) =
     Some ((roll maxInt maxInt)\<lparr>Filament.ID := ''1''\<rparr>) \<and>
   fst (Apply (clockAt 20) (run NewFSM startedRun)
          (Some (UpdatePrintJobStatusCommand ''1'' Done))) =
     Inr (PrintJobResult ((job (- 1))\<lparr>PrintJob.ID := ''1'', PrintJob.Status := Done,
                                       CreatedAt := 7, UpdatedAt := 20\<rparr>)) \<and>
   fmlookup (Filaments (store (snd (Apply (clockAt 20) (run NewFSM startedRun)
      (Some (UpdatePrintJobStatusCommand ''1'' Done)))))) (FilamentID (job (- 1))) =
     Some ((roll maxInt 0)\<lparr>Filament.ID := ''1''\<rparr>) \<and>
   max 0 (sint (RemainingWeightInGrams (roll maxInt maxInt)) -
          sint (PrintWeightInGrams (job (- 1)))) = 2 ^ 63"
  by (simp add: startedRun_result maxInt_def eval_defs sample_defs)

text \<open>
  C6, amended. For an \<open>UpdatePrintJob\<close> command that succeeds on an existing job: when
  the new status is \<open>Done\<close>, the remaining weight of the job's filament afterwards is
  max(0, remaining before - print weight) with the difference computed in Go's 64-bit
  \<open>int\<close>, wrapping around; whenever the difference taken over the integers lies between
  -2^63 and 2^63 - 1, that is the maximum of 0 and the integer difference. No other field
  of that filament and no other filament changes. When the new status is not \<open>Done\<close>,
  the filaments are unchanged. In both cases the stored job carries the new status and
  has \<open>updated_at\<close> set to the clock reading of the call.
\<close>

theorem UpdatePrintJob_Done_consumes_filament:
  assumes "Command.Type cmd = UpdatePrintJob"
    and "fmlookup (PrintJobs (store f)) (Command.ID cmd) = Some j"
    and "fst (Apply clk f (Some cmd)) = Inr r"
  shows
    "(Command.Status cmd = Done \<longrightarrow>
        (\<forall>fl. fmlookup (Filaments (store f)) (FilamentID j) = Some fl \<longrightarrow>
        (\<exists>fl'. fmlookup (Filaments (store (snd (Apply clk f (Some cmd))))) (FilamentID j) = Some fl' \<and>
           fl' = fl\<lparr>RemainingWeightInGrams := RemainingWeightInGrams fl'\<rparr> \<and>
           sint (RemainingWeightInGrams fl') =
             max 0 (sint (RemainingWeightInGrams fl - PrintWeightInGrams j)) \<and>
           (- (2 ^ 63) \<le> sint (RemainingWeightInGrams fl) - sint (PrintWeightInGrams j) \<and>
            sint (RemainingWeightInGrams fl) - sint (PrintWeightInGrams j) < 2 ^ 63 \<longrightarrow>
            sint (RemainingWeightInGrams fl') =
              max 0 (sint (RemainingWeightInGrams fl) - sint (PrintWeightInGrams j))))) \<and>
        (\<forall>k. k \<noteq> FilamentID j \<longrightarrow>
           fmlookup (Filaments (store (snd (Apply clk f (Some cmd))))) k =
           fmlookup (Filaments (store f)) k)) \<and>
     (Command.Status cmd \<noteq> Done \<longrightarrow>
        Filaments (store (snd (Apply clk f (Some cmd)))) = Filaments (store f)) \<and>
     (\<exists>j'. fmlookup (PrintJobs (store (snd (Apply clk f (Some cmd))))) (Command.ID cmd) = Some j' \<and>
        UpdatedAt j' = clk 0 \<and> PrintJob.Status j' = Command.Status cmd)"
proof (cases "ValidatePrintJobStatusTransition (PrintJob.Status j) (Command.Status cmd)")
  case (Some e)
  with assms show ?thesis
    by (simp add: Apply_UpdatePrintJob applyUpdatePrintJob_rejected)
next
  case None
  let ?after = "store (snd (Apply clk f (Some cmd)))"
  let ?fin = "finishFilament (store f) j"
  have ap: "Apply clk f (Some cmd) =
    (Inr (PrintJobResult (j\<lparr>PrintJob.Status := Command.Status cmd, UpdatedAt := clk 0\<rparr>)),
     f\<lparr>store := (store f)
        \<lparr>Filaments := (if Command.Status cmd = Done
                       then fmupd (FilamentID j) ?fin (Filaments (store f))
                       else Filaments (store f)),
         PrintJobs := fmupd (Command.ID cmd)
                        (j\<lparr>PrintJob.Status := Command.Status cmd, UpdatedAt := clk 0\<rparr>)
                        (PrintJobs (store f))\<rparr>\<rparr>)"
    using Apply_UpdatePrintJob [OF assms(1), of clk f]
      applyUpdatePrintJob_accepted [OF assms(2) None, of clk] by simp
  have finished: "fmlookup (Filaments ?after) (FilamentID j) = Some ?fin"
    if "Command.Status cmd = Done"
    using that by (simp add: ap)
  have others: "fmlookup (Filaments ?after) k = fmlookup (Filaments (store f)) k"
    if "Command.Status cmd = Done" and "k \<noteq> FilamentID j" for k
    using that by (simp add: ap)
  have keep: "Filaments ?after = Filaments (store f)" if "Command.Status cmd \<noteq> Done"
    using that by (simp add: ap)
  have jobs: "fmlookup (PrintJobs ?after) (Command.ID cmd) =
      Some (j\<lparr>PrintJob.Status := Command.Status cmd, UpdatedAt := clk 0\<rparr>)"
    by (simp add: ap)
  have consumed:
    "\<exists>fl'. fmlookup (Filaments ?after) (FilamentID j) = Some fl' \<and>
           fl' = fl\<lparr>RemainingWeightInGrams := RemainingWeightInGrams fl'\<rparr> \<and>
           sint (RemainingWeightInGrams fl') =
             max 0 (sint (RemainingWeightInGrams fl - PrintWeightInGrams j)) \<and>
           (- (2 ^ 63) \<le> sint (RemainingWeightInGrams fl) - sint (PrintWeightInGrams j) \<and>
            sint (RemainingWeightInGrams fl) - sint (PrintWeightInGrams j) < 2 ^ 63 \<longrightarrow>
            sint (RemainingWeightInGrams fl') =
              max 0 (sint (RemainingWeightInGrams fl) - sint (PrintWeightInGrams j)))"
    if d: "Command.Status cmd = Done"
      and fl: "fmlookup (Filaments (store f)) (FilamentID j) = Some fl" for fl
  proof (intro exI conjI impI)
    show "fmlookup (Filaments ?after) (FilamentID j) = Some ?fin"
      by (rule finished [OF d])
    show "?fin = fl\<lparr>RemainingWeightInGrams := RemainingWeightInGrams ?fin\<rparr>"
      by (rule finishFilament_remaining(1) [OF fl])
    show m: "sint (RemainingWeightInGrams ?fin) =
        max 0 (sint (RemainingWeightInGrams fl - PrintWeightInGrams j))"
      by (rule finishFilament_remaining(2) [OF fl])
    assume "- (2 ^ 63) \<le> sint (RemainingWeightInGrams fl) - sint (PrintWeightInGrams j) \<and>
            sint (RemainingWeightInGrams fl) - sint (PrintWeightInGrams j) < 2 ^ 63"
    then have "sint (RemainingWeightInGrams fl - PrintWeightInGrams j) =
        sint (RemainingWeightInGrams fl) - sint (PrintWeightInGrams j)"
      by (intro sint_sub_in_range) simp_all
    with m show "sint (RemainingWeightInGrams ?fin) =
        max 0 (sint (RemainingWeightInGrams fl) - sint (PrintWeightInGrams j))"
      by (simp only:)
  qed
  have stored: "\<exists>j'. fmlookup (PrintJobs ?after) (Command.ID cmd) = Some j' \<and>
        UpdatedAt j' = clk 0 \<and> PrintJob.Status j' = Command.Status cmd"
    by (intro exI conjI, rule jobs) simp_all
  show ?thesis
  proof (intro conjI impI allI)
    fix fl
    assume "Command.Status cmd = Done" and "fmlookup (Filaments (store f)) (FilamentID j) = Some fl"
    then show "\<exists>fl'. fmlookup (Filaments ?after) (FilamentID j) = Some fl' \<and>
           fl' = fl\<lparr>RemainingWeightInGrams := RemainingWeightInGrams fl'\<rparr> \<and>
           sint (RemainingWeightInGrams fl') =
             max 0 (sint (RemainingWeightInGrams fl - PrintWeightInGrams j)) \<and>
           (- (2 ^ 63) \<le> sint (RemainingWeightInGrams fl) - sint (PrintWeightInGrams j) \<and>
            sint (RemainingWeightInGrams fl) - sint (PrintWeightInGrams j) < 2 ^ 63 \<longrightarrow>
            sint (RemainingWeightInGrams fl') =
              max 0 (sint (RemainingWeightInGrams fl) - sint (PrintWeightInGrams j)))"
      by (rule consumed)
  next
    fix k
    assume "Command.Status cmd = Done" and "k \<noteq> FilamentID j"
    then show "fmlookup (Filaments ?after) k = fmlookup (Filaments (store f)) k"
      by (rule others)
  next
    assume "Command.Status cmd \<noteq> Done"
    then show "Filaments ?after = Filaments (store f)" by (rule keep)
  next
    show "\<exists>j'. fmlookup (PrintJobs ?after) (Command.ID cmd) = Some j' \<and>
        UpdatedAt j' = clk 0 \<and> PrintJob.Status j' = Command.Status cmd"
      by (rule stored)
  qed
qed

theorem UpdatePrintJob_Done_consumes_filament_witness:
  "fst (Apply (clockAt 20) (withJob Running 60) (Some (UpdatePrintJobStatusCommand ''1'' Done))) =
     Inr (PrintJobResult ((job 60)\<lparr>PrintJob.ID := ''1'', PrintJob.Status := Done,
                                  CreatedAt := 7, UpdatedAt := 20\<rparr>)) \<and>
   (\<exists>fl'. fmlookup (Filaments (store (snd (Apply (clockAt 20) (withJob Running 60)
              (Some (UpdatePrintJobStatusCommand ''1'' Done)))))) ''1'' = Some fl' \<and>
      sint (RemainingWeightInGrams fl') = 40)"
proof -
  let ?cmd = "UpdatePrintJobStatusCommand ''1'' Done"
  have t: "Command.Type ?cmd = UpdatePrintJob"
    by (simp add: UpdatePrintJobStatusCommand_def)
  have j: "fmlookup (PrintJobs (store (withJob Running 60))) (Command.ID ?cmd) =
      Some ((job 60)\<lparr>PrintJob.ID := ''1'', PrintJob.Status := Running, CreatedAt := 7, UpdatedAt := 8\<rparr>)"
    by (simp add: UpdatePrintJobStatusCommand_def withJob_def)
  have fl: "fmlookup (Filaments (store (withJob Running 60)))
      (FilamentID ((job 60)\<lparr>PrintJob.ID := ''1'', PrintJob.Status := Running, CreatedAt := 7, UpdatedAt := 8\<rparr>)) =
      Some ((roll 100 100)\<lparr>Filament.ID := ''1''\<rparr>)"
    by (simp add: withJob_def seededStore_def job_def)
  have ok: "fst (Apply (clockAt 20) (withJob Running 60) (Some ?cmd)) =
     Inr (PrintJobResult ((job 60)\<lparr>PrintJob.ID := ''1'', PrintJob.Status := Done,
                                  CreatedAt := 7, UpdatedAt := 20\<rparr>))"
    by (simp add: Apply_def applyUpdatePrintJob_def ValidatePrintJobStatusTransition_def
          command_defs status_defs sample_defs Let_def word_sless_alt)
  have d: "Command.Status ?cmd = Done"
    by (simp add: UpdatePrintJobStatusCommand_def)
  from UpdatePrintJob_Done_consumes_filament [OF t j ok] d fl
  obtain fl' where
    "fmlookup (Filaments (store (snd (Apply (clockAt 20) (withJob Running 60) (Some ?cmd)))))
       (FilamentID ((job 60)\<lparr>PrintJob.ID := ''1'', PrintJob.Status := Running,
                               CreatedAt := 7, UpdatedAt := 8\<rparr>)) = Some fl'"
    and "sint (RemainingWeightInGrams fl') =
       max 0 (sint (RemainingWeightInGrams ((roll 100 100)\<lparr>Filament.ID := ''1''\<rparr>) -
                    PrintWeightInGrams ((job 60)\<lparr>PrintJob.ID := ''1'', PrintJob.Status := Running,
                                               CreatedAt := 7, UpdatedAt := 8\<rparr>)))"
    by blast
  then have "fmlookup (Filaments (store (snd (Apply (clockAt 20) (withJob Running 60) (Some ?cmd)))))
       ''1'' = Some fl' \<and> sint (RemainingWeightInGrams fl') = 40"
    by (simp add: job_def roll_def)
  with ok show ?thesis by blast
qed
section \<open>Restore does not check what it installs\<close>

text \<open>
  Against C7 as stated: a stream that decodes to a store violating I1, I3 and I4 is
  restored with success, and that store becomes the state.
\<close>

theorem Restore_accepts_invalid_store:
  "\<not> I1 orphanStore \<and> \<not> I3 orphanStore \<and> \<not> I4 orphanStore \<and>
   sampleUnmarshal ''orphan'' = Some orphanStore \<and>
   Restore sampleUnmarshal NewFSM (Inr ''orphan'') = (None, \<lparr>store = orphanStore\<rparr>)"
  by (simp add: I1_def I3_def I4_def activeWeight_def active_jobs_on_def active_def
        Restore_def NewFSM_def sample_defs word_sle_eq)

text \<open>
  C7, amended. \<open>Restore\<close> verifies nothing about the decoded store: it succeeds exactly
  when the stream can be read and decodes to a store, and then installs that store as it
  is; when reading or decoding fails it returns the error and leaves the state machine
  as it was.
\<close>

theorem Restore_installs_unchecked:
  "(fst (Restore unmarshal f rc) = None \<longleftrightarrow> (\<exists>data s. rc = Inr data \<and> unmarshal data = Some s)) \<and>
   (\<forall>data s. rc = Inr data \<and> unmarshal data = Some s \<longrightarrow>
      Restore unmarshal f rc = (None, f\<lparr>store := s\<rparr>)) \<and>
   (fst (Restore unmarshal f rc) \<noteq> None \<longrightarrow> snd (Restore unmarshal f rc) = f)"
  by (auto simp: Restore_def split: sum.splits option.splits)

theorem Restore_installs_unchecked_witness:
  "fst (Restore sampleUnmarshal seeded (Inr ''orphan'')) = None \<and>
   Restore sampleUnmarshal seeded (Inr ''orphan'') = (None, seeded\<lparr>store := orphanStore\<rparr>) \<and>
   fst (Restore sampleUnmarshal seeded (Inr ''garbage'')) \<noteq> None \<and>
   snd (Restore sampleUnmarshal seeded (Inr ''garbage'')) = seeded"
proof -
  have a: "sampleUnmarshal ''orphan'' = Some orphanStore"
    by (simp add: sampleUnmarshal_def)
  have b: "fst (Restore sampleUnmarshal seeded (Inr ''garbage'')) \<noteq> None"
    by (simp add: Restore_def sampleUnmarshal_def)
  from Restore_installs_unchecked [of sampleUnmarshal seeded "Inr ''orphan''"]
       Restore_installs_unchecked [of sampleUnmarshal seeded "Inr ''garbage''"] a b
  show ?thesis by simp
qed

section \<open>Remaining weight between zero and total\<close>

text \<open>
  Against C8 as stated: \<open>CreateFilament\<close> stores the remaining weight of the payload
  whenever it is not 0, so a roll sent with total 10 and remaining 50 is stored with
  remaining above total, and one sent with remaining -5 is stored with a negative
  remaining weight.
\<close>

theorem CreateFilament_outside_total:
  "fmlookup (Filaments (store (run NewFSM [(clockAt 3, Some (CreateFilamentCommand (roll 10 50)))])))
     ''1'' = Some ((roll 10 50)\<lparr>Filament.ID := ''1''\<rparr>) \<and>
   \<not> RemainingWeightInGrams ((roll 10 50)\<lparr>Filament.ID := ''1''\<rparr>) \<le>s
       TotalWeightInGrams ((roll 10 50)\<lparr>Filament.ID := ''1''\<rparr>) \<and>
   fmlookup (Filaments (store (run NewFSM [(clockAt 3, Some (CreateFilamentCommand (roll 10 (- 5))))])))
     ''1'' = Some ((roll 10 (- 5))\<lparr>Filament.ID := ''1''\<rparr>) \<and>
   \<not> 0 \<le>s RemainingWeightInGrams ((roll 10 (- 5))\<lparr>Filament.ID := ''1''\<rparr>)"
  by (simp add: run_defs eval_defs sample_defs NewFSM_def NewStore_def)

text \<open>
  C8, amended. Take a sequence of commands applied from the initial empty store in which
  every \<open>CreateFilament\<close> stores a remaining weight (the payload's, or the total when the
  payload's is 0) that is at least 0 and at most the total, and every \<open>CreatePrintJob\<close>
  payload has a print weight of at least 0. Then after every applied command every
  filament in the store has 0 \<open>\<le>\<close> remaining \<open>\<le>\<close> total.
\<close>

theorem remaining_within_total:
  assumes "along nonnegPayload NewFSM entries" and "along boundedPayload NewFSM entries"
    and "fmlookup (Filaments (store (run NewFSM (take n entries)))) k = Some fl"
  shows "0 \<le>s RemainingWeightInGrams fl \<and> RemainingWeightInGrams fl \<le>s TotalWeightInGrams fl"
proof -
  have "withinTotal (store (run NewFSM (take n entries)))"
    using run_preserves_bounds [OF along_take [OF assms(1), of n] along_take [OF assms(2), of n]]
      NewStore_bounds by (simp add: NewFSM_def)
  moreover from assms(3) have "k \<in> fmdom' (Filaments (store (run NewFSM (take n entries))))"
    by (simp add: fmdom'I)
  ultimately show ?thesis
    using assms(3) by (auto simp: withinTotal_def)
qed

theorem remaining_within_total_witness:
  "along nonnegPayload NewFSM sampleRun \<and> along boundedPayload NewFSM sampleRun \<and>
   fmlookup (Filaments (store (run NewFSM (take 5 sampleRun)))) ''1'' =
     Some ((roll 100 40)\<lparr>Filament.ID := ''1''\<rparr>) \<and>
   0 \<le>s RemainingWeightInGrams ((roll 100 40)\<lparr>Filament.ID := ''1''\<rparr>) \<and>
   RemainingWeightInGrams ((roll 100 40)\<lparr>Filament.ID := ''1''\<rparr>) \<le>s
     TotalWeightInGrams ((roll 100 40)\<lparr>Filament.ID := ''1''\<rparr>)"
proof -
  have t: "take 5 sampleRun = sampleRun"
    by (simp add: sampleRun_def)
  have l: "fmlookup (Filaments (store (run NewFSM (take 5 sampleRun)))) ''1'' =
     Some ((roll 100 40)\<lparr>Filament.ID := ''1''\<rparr>)"
    by (simp only: t sampleRun_result) simp
  from remaining_within_total [OF sampleRun_along(1) sampleRun_along(2) l] l sampleRun_along
  show ?thesis by simp
qed

section \<open>Printers and filaments stay, but can be replaced\<close>

text \<open>
  Against C9 as stated: a \<open>CreatePrinter\<close> command that carries the id of an existing
  printer replaces that printer, company and model included.
\<close>

theorem CreatePrinter_replaces_printer:
  "fmlookup (Printers (store seeded)) ''1'' = Some (ender\<lparr>Printer.ID := ''1''\<rparr>) \<and>
   fmlookup (Printers (store (snd (Apply (clockAt 7) seeded (Some (CreatePrinterCommand prusa))))))
     ''1'' = Some prusa \<and>
   Company prusa \<noteq> Company (ender\<lparr>Printer.ID := ''1''\<rparr>)"
  by (simp add: eval_defs sample_defs)

text \<open>
  C9, amended. No command deletes a printer or a filament. A printer that is in the
  store stays exactly as it is under every command, except a \<open>CreatePrinter\<close> that
  stores its printer under the same id (the id of the payload, or the allocated one when
  the payload has none). A filament that is in the store stays under its key, and
  everything but its remaining weight is unchanged, except under a \<open>CreateFilament\<close>
  that stores its filament under the same id.
\<close>

theorem entities_never_deleted:
  "(fmlookup (Printers (store f)) i = Some p \<longrightarrow>
      (\<exists>p'. fmlookup (Printers (store (snd (Apply clk f log)))) i = Some p') \<and>
      ((\<forall>q. storedPrinter f log = Some q \<longrightarrow> Printer.ID q \<noteq> i) \<longrightarrow>
         fmlookup (Printers (store (snd (Apply clk f log)))) i = Some p)) \<and>
   (fmlookup (Filaments (store f)) k = Some fl \<longrightarrow>
      (\<exists>fl'. fmlookup (Filaments (store (snd (Apply clk f log)))) k = Some fl' \<and>
         ((\<forall>q. storedFilament f log = Some q \<longrightarrow> Filament.ID q \<noteq> k) \<longrightarrow>
            fl' = fl\<lparr>RemainingWeightInGrams := RemainingWeightInGrams fl'\<rparr>)))"
  using Apply_keeps_printer [of f i p clk log] Apply_keeps_filament [of f k fl clk log]
  by blast

theorem entities_never_deleted_witness:
  "fmlookup (Printers (store (snd (Apply (clockAt 7) seeded
      (Some (CreatePrintJobCommand (job 60))))))) ''1'' = Some (ender\<lparr>Printer.ID := ''1''\<rparr>) \<and>
   (\<exists>fl'. fmlookup (Filaments (store (snd (Apply (clockAt 7) seeded
      (Some (CreatePrintJobCommand (job 60))))))) ''1'' = Some fl' \<and>
      fl' = ((roll 100 100)\<lparr>Filament.ID := ''1''\<rparr>)\<lparr>RemainingWeightInGrams := RemainingWeightInGrams fl'\<rparr>)"
proof -
  have p: "fmlookup (Printers (store seeded)) ''1'' = Some (ender\<lparr>Printer.ID := ''1''\<rparr>)"
    by (simp add: sample_defs)
  have fl: "fmlookup (Filaments (store seeded)) ''1'' = Some ((roll 100 100)\<lparr>Filament.ID := ''1''\<rparr>)"
    by (simp add: sample_defs)
  have n: "storedPrinter seeded (Some (CreatePrintJobCommand (job 60))) = None"
    "storedFilament seeded (Some (CreatePrintJobCommand (job 60))) = None"
    by (simp_all add: storedPrinter_def storedFilament_def CreatePrintJobCommand_def command_defs)
  from entities_never_deleted [of seeded "''1''" "ender\<lparr>Printer.ID := ''1''\<rparr>" "clockAt 7"
      "Some (CreatePrintJobCommand (job 60))" "''1''" "(roll 100 100)\<lparr>Filament.ID := ''1''\<rparr>"] p fl n
  show ?thesis by simp
qed

section \<open>Errors leave the state alone\<close>

text \<open>
  C10. \<open>Apply\<close> is atomic on error: whenever it returns an error value (undecodable
  entry or payload, unknown command type, missing printer, filament or job, not enough
  filament, illegal status transition), the state machine afterwards is the one before:
  no entity is inserted or changed, and the id counters are the same.
\<close>

theorem Apply_atomic_on_error:
  "fst (Apply clk f log) = Inl e \<Longrightarrow> snd (Apply clk f log) = f"
  by (rule Apply_error_unchanged)

theorem Apply_atomic_on_error_witness:
  "fst (Apply (clockAt 7) seeded (Some (CreatePrintJobCommand (job 150)))) =
     Inl (NotEnoughFilament 150 100) \<and>
   snd (Apply (clockAt 7) seeded (Some (CreatePrintJobCommand (job 150)))) = seeded"
proof -
  have rejected: "fst (Apply (clockAt 7) seeded (Some (CreatePrintJobCommand (job 150)))) =
      Inl (NotEnoughFilament 150 100)"
    by (simp add: sample_defs Apply_CreatePrintJob applyCreatePrintJob_def
          CheckFilamentAvailability_available available_def active_jobs_on_def word_sless_alt)
  from Apply_atomic_on_error [OF rejected] rejected show ?thesis by simp
qed

end
